theory Spec2Isabelle
  imports Complex_Main "HOL-Library.AList" "HOL-Library.Multiset"
begin

section \<open>Python values\<close>

text \<open>
  A Python float is modelled as a real number or one of the three special values of
  IEEE arithmetic. A finite float is the real number it denotes, and sums,
  differences, products and quotients of finite floats are taken exactly; where
  rounding decides a result a claim is about (the mean inside \<open>r2\<close>, the
  correlations), the operation is a parameter. What the scripts do with the
  special values (a division by zero gives \<open>inf\<close> or \<open>nan\<close> in numpy and pandas and
  raises nothing, every ordering comparison with \<open>nan\<close> is false) is modelled.
\<close>

datatype pyfloat = Fin real | PInf | NInf | NaN

text \<open>\<open>fless a b\<close> is Python's \<open>a < b\<close> on floats; \<open>a > b\<close> is \<open>fless b a\<close>.\<close>

fun fless :: "pyfloat \<Rightarrow> pyfloat \<Rightarrow> bool" where
  "fless NaN _ = False"
| "fless _ NaN = False"
| "fless (Fin a) (Fin b) = (a < b)"
| "fless (Fin a) PInf = True"
| "fless (Fin a) NInf = False"
| "fless PInf _ = False"
| "fless NInf NInf = False"
| "fless NInf _ = True"

text \<open>
  The values found in a metrics dictionary: numbers, and the string under
  \<open>evaluated_at\<close>. A dictionary is an association list in insertion order, read
  with \<open>map_of\<close>.
\<close>

datatype pyval = PNum pyfloat | PStr string

type_synonym metrics = "(string \<times> pyval) list"

datatype py_error = TypeError | KeyError | ValueError

text \<open>\<open>d.get(k, default)\<close>\<close>

definition dict_get :: "('k \<times> 'v) list \<Rightarrow> 'k \<Rightarrow> 'v \<Rightarrow> 'v" where
  "dict_get d k dflt = (case map_of d k of None \<Rightarrow> dflt | Some v \<Rightarrow> v)"

section \<open>evaluate\_models.py\<close>

subsection \<open>numpy and scikit-learn on finite arrays\<close>

text \<open>
  True division of two finite floats in numpy: a zero divisor gives \<open>nan\<close> or an
  infinity and a warning, never an exception. \<open>fsub a x\<close> is \<open>a - x\<close>.
\<close>

definition fdiv :: "real \<Rightarrow> real \<Rightarrow> pyfloat" where
  "fdiv a b =
     (if b \<noteq> 0 then Fin (a / b) else if a = 0 then NaN else if 0 < a then PInf else NInf)"

fun fsub :: "real \<Rightarrow> pyfloat \<Rightarrow> pyfloat" where
  "fsub a (Fin x) = Fin (a - x)"
| "fsub a PInf = NInf"
| "fsub a NInf = PInf"
| "fsub a NaN = NaN"

text \<open>
  \<open>np.mean\<close> of a float array, the sum of squares \<open>np.sum((y - np.mean(y)) ** 2)\<close>
  and \<open>np.corrcoef(x, y)[0,1]\<close> are parameters: the float each returns is the exact
  value rounded, and the rounding decides whether the sum of squares is zero (on
  \<open>0.1, 0.1, 0.1\<close> the float mean is not \<open>0.1\<close> and the sum is not zero; on \<open>5, 5\<close>
  the mean is \<open>5\<close> and the sum is zero). \<open>mean_of\<close> is only applied to arrays that
  are not empty.
\<close>

record numpy =
  mean_of :: "real list \<Rightarrow> real"
  sq_dev_of :: "real list \<Rightarrow> real"
  corrcoef_of :: "pyfloat list \<Rightarrow> pyfloat list \<Rightarrow> pyfloat"

text \<open>
  \<open>np.mean\<close> of a boolean array (the count of \<open>True\<close> over the length; empty:
  \<open>nan\<close>) and \<open>np.diff\<close>.
\<close>

definition np_mean_bool :: "bool list \<Rightarrow> pyfloat" where
  "np_mean_bool bs = fdiv (real (length (filter (\<lambda>b. b) bs))) (real (length bs))"

definition np_diff :: "real list \<Rightarrow> real list" where
  "np_diff xs = map (\<lambda>(a, b). b - a) (zip xs (tl xs))"

text \<open>
  \<open>mean_squared_error\<close> and \<open>mean_absolute_error\<close> of scikit-learn validate their
  input: an empty array raises \<open>ValueError\<close>. The two arrays have the same length
  wherever the script calls them.
\<close>

definition mean_squared_error :: "real list \<Rightarrow> real list \<Rightarrow> py_error + real" where
  "mean_squared_error y_true y_pred =
     (if y_true = [] then Inl ValueError
      else Inr ((\<Sum>(y, p) \<leftarrow> zip y_true y_pred. (y - p)\<^sup>2) / real (length y_true)))"

definition mean_absolute_error :: "real list \<Rightarrow> real list \<Rightarrow> py_error + real" where
  "mean_absolute_error y_true y_pred =
     (if y_true = [] then Inl ValueError
      else Inr ((\<Sum>(y, p) \<leftarrow> zip y_true y_pred. \<bar>y - p\<bar>) / real (length y_true)))"

subsection \<open>ModelEvaluator\<close>

text \<open>
  An entry of \<open>predictions\<close> is the dictionary built from a response, or \<open>None\<close>.
  The prediction service is a parameter \<open>api\<close>: \<open>api model_id row\<close> is the decoded
  response, or \<open>None\<close> when anything in the \<open>try\<close> block raises (the request, the
  status check, the decoding, a missing key).
\<close>

record prediction =
  predicted_high :: real
  predicted_low :: real
  confidence :: real

record 'f data_row =
  actual_price :: real
  features :: 'f

text \<open>
  The fields of the evaluator the scripts read or write, and \<open>ev_sent\<close>, the alerts
  handed to the webhook so far (model id and metrics of each \<open>send_alert\<close> that
  posts).
\<close>

record evaluator =
  ev_results :: "(string \<times> metrics) list"
  ev_alert_threshold :: pyfloat
  ev_slack_webhook_url :: "string option"
  ev_sent :: "(string \<times> metrics) list"

text \<open>
  The loop of \<open>get_predictions\<close> with its two accumulators, and the check after it.
  The comparison \<open>errors > len(data) * 0.1\<close> is read over the reals: the float
  product rounds to \<open>n / 10\<close> when 10 divides \<open>n\<close> and otherwise lies between the
  same two integers as \<open>n / 10\<close>, so against the integer \<open>errors\<close> it decides as
  the exact product does.
\<close>

fun get_predictions_loop ::
  "(string \<Rightarrow> 'r \<Rightarrow> prediction option) \<Rightarrow> string \<Rightarrow> 'r list \<Rightarrow>
     prediction option list \<Rightarrow> nat \<Rightarrow> prediction option list \<times> nat" where
  "get_predictions_loop api model_id [] predictions errors = (predictions, errors)"
| "get_predictions_loop api model_id (row # rows) predictions errors =
     (case api model_id row of
        Some p \<Rightarrow> get_predictions_loop api model_id rows (predictions @ [Some p]) errors
      | None \<Rightarrow> get_predictions_loop api model_id rows (predictions @ [None]) (errors + 1))"

definition get_predictions ::
  "(string \<Rightarrow> 'r \<Rightarrow> prediction option) \<Rightarrow> string \<Rightarrow> 'r list \<Rightarrow>
     prediction option list option" where
  "get_predictions api model_id data =
     (case get_predictions_loop api model_id data [] 0 of
        (predictions, errors) \<Rightarrow>
          if real errors > real (length data) * (1 / 10) then None else Some predictions)"

definition evaluate_regression_model ::
  "numpy \<Rightarrow> real list \<Rightarrow> real list \<Rightarrow> real list \<Rightarrow> py_error + metrics" where
  "evaluate_regression_model np y_true y_pred conf =
     (case mean_squared_error y_true y_pred of
        Inl e \<Rightarrow> Inl e
      | Inr mse \<Rightarrow>
          (case mean_absolute_error y_true y_pred of
             Inl e \<Rightarrow> Inl e
           | Inr mae \<Rightarrow>
               Inr [(''mse'', PNum (Fin mse)),
                    (''rmse'', PNum (Fin (sqrt mse))),
                    (''mae'', PNum (Fin mae)),
                    (''r2'', PNum (fsub 1
                       (fdiv (\<Sum>(y, p) \<leftarrow> zip y_true y_pred. (y - p)\<^sup>2)
                             (sq_dev_of np y_true)))),
                    (''avg_confidence'', PNum (Fin (mean_of np conf))),
                    (''confidence_error_correlation'',
                       PNum (corrcoef_of np (map Fin conf)
                               (map (\<lambda>(y, p). Fin \<bar>y - p\<bar>) (zip y_true y_pred))))]))"

text \<open>
  \<open>[p['predicted_high'] for p in predictions]\<close>: subscripting \<open>None\<close> raises
  \<open>TypeError\<close>.
\<close>

fun subscript_all :: "prediction option list \<Rightarrow> py_error + prediction list" where
  "subscript_all [] = Inr []"
| "subscript_all (None # ps) = Inl TypeError"
| "subscript_all (Some p # ps) =
     (case subscript_all ps of Inl e \<Rightarrow> Inl e | Inr qs \<Rightarrow> Inr (p # qs))"

text \<open>
  \<open>evaluate_model\<close>. \<open>now\<close> is the reading of the clock, as a string, when the model
  is evaluated. The result is \<open>Inr None\<close> when the method returns \<open>None\<close>.
\<close>

definition evaluate_model ::
  "numpy \<Rightarrow> (string \<Rightarrow> 'f data_row \<Rightarrow> prediction option) \<Rightarrow> 'f data_row list \<Rightarrow>
     (string \<Rightarrow> string) \<Rightarrow> string \<Rightarrow> py_error + metrics option" where
  "evaluate_model np api evaluation_data now model_id =
     (case get_predictions api model_id evaluation_data of
        None \<Rightarrow> Inr None
      | Some predictions \<Rightarrow>
          (case subscript_all predictions of
             Inl e \<Rightarrow> Inl e
           | Inr ps \<Rightarrow>
               (let y_true = map actual_price evaluation_data;
                    y_pred = map predicted_high ps;
                    conf = map confidence ps
                in case evaluate_regression_model np y_true y_pred conf of
                     Inl e \<Rightarrow> Inl e
                   | Inr metrics \<Rightarrow>
                       (let direction_true = map (\<lambda>d. d > 0) (np_diff y_true);
                            direction_pred = map (\<lambda>d. d > 0) (np_diff y_pred);
                            in_interval =
                              map (\<lambda>(y, p). y \<ge> predicted_low p \<and> y \<le> predicted_high p)
                                (zip y_true ps);
                            returns = map (\<lambda>(d, y). fdiv d y) (zip (np_diff y_true) (butlast y_true));
                            pred_returns = map (\<lambda>(d, y). fdiv d y) (zip (np_diff y_pred) (butlast y_pred))
                        in Inr (Some
                             (AList.update ''evaluated_at'' (PStr (now model_id))
                               (AList.update ''profit_correlation''
                                 (PNum (corrcoef_of np returns pred_returns))
                                 (AList.update ''interval_accuracy'' (PNum (np_mean_bool in_interval))
                                   (AList.update ''directional_accuracy''
                                      (PNum (np_mean_bool
                                         (map (\<lambda>(a, b). a = b) (zip direction_true direction_pred))))
                                      metrics)))))))))"

text \<open>
  \<open>send_alert\<close> returns at once when no webhook is configured (\<open>None\<close> or the empty
  string); otherwise it posts, and an exception of the post is caught.
\<close>

definition send_alert :: "evaluator \<Rightarrow> string \<Rightarrow> metrics \<Rightarrow> evaluator" where
  "send_alert self model_id metrics =
     (case ev_slack_webhook_url self of
        None \<Rightarrow> self
      | Some url \<Rightarrow>
          if url = [] then self
          else self\<lparr> ev_sent := ev_sent self @ [(model_id, metrics)] \<rparr>)"

text \<open>
  The loop of \<open>evaluate_all_models\<close> over the list of models. An exception of
  \<open>evaluate_model\<close> is not caught there. \<open>directional_accuracy\<close> is always a key
  of the metrics \<open>evaluate_model\<close> returns.
\<close>

fun evaluate_models_loop ::
  "numpy \<Rightarrow> (string \<Rightarrow> 'f data_row \<Rightarrow> prediction option) \<Rightarrow> 'f data_row list \<Rightarrow>
     (string \<Rightarrow> string) \<Rightarrow> string list \<Rightarrow> evaluator \<Rightarrow> py_error + evaluator" where
  "evaluate_models_loop np api data now [] self = Inr self"
| "evaluate_models_loop np api data now (model_id # models) self =
     (case evaluate_model np api data now model_id of
        Inl e \<Rightarrow> Inl e
      | Inr None \<Rightarrow> evaluate_models_loop np api data now models self
      | Inr (Some metrics) \<Rightarrow>
          (let self1 = self\<lparr> ev_results := AList.update model_id metrics (ev_results self) \<rparr>
           in case map_of metrics ''directional_accuracy'' of
                Some (PNum v) \<Rightarrow>
                  if fless v (ev_alert_threshold self1) then
                    evaluate_models_loop np api data now models (send_alert self1 model_id metrics)
                  else evaluate_models_loop np api data now models self1
              | Some (PStr s) \<Rightarrow> Inl TypeError
              | None \<Rightarrow> Inl KeyError))"

text \<open>
  \<open>evaluate_all_models\<close>: \<open>loaded\<close> is what \<open>load_data\<close> read (\<open>None\<close> when it
  failed), \<open>listed\<close> the ids of the response to \<open>GET /models\<close> (\<open>None\<close> when the
  request failed). \<open>save_results\<close>, called last, catches every exception; the two
  files it writes are functions of \<open>self.results\<close> (see \<open>export_metrics\<close>).
\<close>

definition evaluate_all_models ::
  "numpy \<Rightarrow> (string \<Rightarrow> 'f data_row \<Rightarrow> prediction option) \<Rightarrow> 'f data_row list option \<Rightarrow>
     string list option \<Rightarrow> (string \<Rightarrow> string) \<Rightarrow> evaluator \<Rightarrow> py_error + (bool \<times> evaluator)" where
  "evaluate_all_models np api loaded listed now self =
     (case loaded of
        None \<Rightarrow> Inr (False, self)
      | Some data \<Rightarrow>
          (case listed of
             None \<Rightarrow> Inr (False, self)
           | Some models \<Rightarrow>
               (case evaluate_models_loop np api data now models self of
                  Inl e \<Rightarrow> Inl e
                | Inr self' \<Rightarrow> Inr (True, self'))))"

text \<open>
  \<open>export_metrics\<close>. \<open>str_real\<close> is Python's \<open>str\<close> on a finite float, a parameter;
  the special values print as \<open>nan\<close>, \<open>inf\<close> and \<open>-inf\<close>. \<open>metric_line\<close> is the
  formatted string of one line, with \<open>metric_name\<close> after its \<open>replace\<close>. The inner
  loop runs over the items of one result, the outer loop over
  \<open>self.results.items()\<close>; both append to the list \<open>metrics\<close>, and the file holds
  the lines joined by newlines.
\<close>

fun str_float :: "(real \<Rightarrow> string) \<Rightarrow> pyfloat \<Rightarrow> string" where
  "str_float str_real (Fin x) = str_real x"
| "str_float str_real PInf = ''inf''"
| "str_float str_real NInf = ''-inf''"
| "str_float str_real NaN = ''nan''"

definition str_replace :: "char \<Rightarrow> char \<Rightarrow> string \<Rightarrow> string" where
  "str_replace old new s = map (\<lambda>c. if c = old then new else c) s"

definition metric_line :: "(real \<Rightarrow> string) \<Rightarrow> string \<Rightarrow> string \<Rightarrow> pyfloat \<Rightarrow> string" where
  "metric_line str_real model_id metric v =
     str_replace CHR ''-'' CHR ''_'' (''model_'' @ metric) @
       ''{model_id=\"'' @ model_id @ ''\"} '' @ str_float str_real v"

fun export_result ::
  "(real \<Rightarrow> string) \<Rightarrow> string \<Rightarrow> metrics \<Rightarrow> string list \<Rightarrow> string list" where
  "export_result str_real model_id [] lines = lines"
| "export_result str_real model_id ((metric, PNum v) # rest) lines =
     export_result str_real model_id rest (lines @ [metric_line str_real model_id metric v])"
| "export_result str_real model_id ((metric, PStr s) # rest) lines =
     export_result str_real model_id rest lines"

fun export_results ::
  "(real \<Rightarrow> string) \<Rightarrow> (string \<times> metrics) list \<Rightarrow> string list \<Rightarrow> string list" where
  "export_results str_real [] lines = lines"
| "export_results str_real ((model_id, result) # rest) lines =
     export_results str_real rest (export_result str_real model_id result lines)"

fun join_lines :: "string list \<Rightarrow> string" where
  "join_lines [] = []"
| "join_lines [l] = l"
| "join_lines (l # ls) = l @ [CHR 0x0A] @ join_lines ls"

definition export_metrics :: "(real \<Rightarrow> string) \<Rightarrow> evaluator \<Rightarrow> string" where
  "export_metrics str_real self = join_lines (export_results str_real (ev_results self) [])"

section \<open>check\_model\_performance.py\<close>

text \<open>
  The values \<open>json.load\<close> gives under the keys of a metrics dictionary: an \<open>int\<close>, a
  \<open>float\<close> or a \<open>str\<close> (\<open>null\<close>, booleans, arrays and objects are left out; an \<open>int\<close> is supposed
  to fit the 64 bits of a frame column). An
  \<open>int\<close> and a \<open>float\<close> compare as numbers and format alike under a format
  specification; only \<open>str\<close> tells them apart (\<open>0\<close> and \<open>0.0\<close>). \<open>num_of\<close> is the
  number of a value, \<open>None\<close> for a string.
\<close>

datatype jval = JInt int | JFloat pyfloat | JStr string

type_synonym jmetrics = "(string \<times> jval) list"

definition num_of :: "jval \<Rightarrow> pyfloat option" where
  "num_of v =
     (case v of JInt i \<Rightarrow> Some (Fin (real_of_int i)) | JFloat x \<Rightarrow> Some x | JStr s \<Rightarrow> None)"

text \<open>
  \<open>ModelPerformanceChecker\<close>: two fields read from the environment and the table of
  thresholds, a dictionary whose insertion order is the order of declaration.
\<close>

record checker =
  alert_threshold :: pyfloat
  slack_webhook_url :: "string option"
  thresholds :: "(string \<times> pyfloat) list"

definition checker_init :: "pyfloat \<Rightarrow> string option \<Rightarrow> checker" where
  "checker_init env_alert_threshold env_slack_webhook_url =
     \<lparr> alert_threshold = env_alert_threshold,
       slack_webhook_url = env_slack_webhook_url,
       thresholds =
         [(''directional_accuracy'', Fin (80 / 100)),
          (''interval_accuracy'', Fin (75 / 100)),
          (''rmse'', Fin (2 / 100)),
          (''profit_correlation'', Fin (60 / 100)),
          (''r2'', Fin (70 / 100)),
          (''avg_confidence'', Fin (70 / 100))] \<rparr>"

text \<open>The loaded \<open>evaluation_results.json\<close>.\<close>

record evaluation_results =
  timestamp :: string
  results :: "(string \<times> jmetrics) list"

text \<open>An entry of \<open>model_alerts\<close>, an entry of \<open>alerts\<close> and a row of \<open>summary\<close>.\<close>

record issue =
  issue_metric :: string
  issue_value :: jval
  issue_threshold :: pyfloat
  issue_status :: string

record alert =
  alert_model_id :: string
  alert_alerts :: "issue list"
  alert_evaluation_time :: "jval option"

record summary_row =
  row_model_id :: string
  row_directional_accuracy :: jval
  row_interval_accuracy :: jval
  row_rmse :: jval
  row_profit_correlation :: jval
  row_alerts :: nat

text \<open>
  The inner loop of \<open>check_performance\<close>, over \<open>self.thresholds.items()\<close>, with the
  list \<open>model_alerts\<close> it appends to. A metric that is not in \<open>metrics\<close> is skipped
  (\<open>continue\<close>). Comparing a string with the float threshold raises \<open>TypeError\<close>.
\<close>

fun check_thresholds ::
  "jmetrics \<Rightarrow> (string \<times> pyfloat) list \<Rightarrow> issue list \<Rightarrow> py_error + issue list" where
  "check_thresholds ms [] model_alerts = Inr model_alerts"
| "check_thresholds ms ((metric, threshold) # rest) model_alerts =
     (case map_of ms metric of
        None \<Rightarrow> check_thresholds ms rest model_alerts
      | Some v \<Rightarrow>
          (case num_of v of
             None \<Rightarrow> Inl TypeError
           | Some x \<Rightarrow>
               if metric = ''rmse'' then
                 (if fless threshold x then
                    check_thresholds ms rest
                      (model_alerts @
                         [\<lparr> issue_metric = metric, issue_value = v,
                            issue_threshold = threshold, issue_status = ''high'' \<rparr>])
                  else check_thresholds ms rest model_alerts)
               else
                 (if fless x threshold then
                    check_thresholds ms rest
                      (model_alerts @
                         [\<lparr> issue_metric = metric, issue_value = v,
                            issue_threshold = threshold, issue_status = ''low'' \<rparr>])
                  else check_thresholds ms rest model_alerts)))"

text \<open>
  The outer loop, over \<open>results['results'].items()\<close>. The defaults of the summary
  are the \<open>int\<close> \<open>0\<close> and the float \<open>inf\<close>.
\<close>

fun check_models ::
  "checker \<Rightarrow> (string \<times> jmetrics) list \<Rightarrow> alert list \<Rightarrow> summary_row list \<Rightarrow>
     py_error + (alert list \<times> summary_row list)" where
  "check_models self [] alerts summary = Inr (alerts, summary)"
| "check_models self ((model_id, ms) # rest) alerts summary =
     (case check_thresholds ms (thresholds self) [] of
        Inl e \<Rightarrow> Inl e
      | Inr model_alerts \<Rightarrow>
          check_models self rest
            (if model_alerts \<noteq> [] then
               alerts @
                 [\<lparr> alert_model_id = model_id, alert_alerts = model_alerts,
                    alert_evaluation_time = map_of ms ''evaluated_at'' \<rparr>]
             else alerts)
            (summary @
               [\<lparr> row_model_id = model_id,
                  row_directional_accuracy = dict_get ms ''directional_accuracy'' (JInt 0),
                  row_interval_accuracy = dict_get ms ''interval_accuracy'' (JInt 0),
                  row_rmse = dict_get ms ''rmse'' (JFloat PInf),
                  row_profit_correlation = dict_get ms ''profit_correlation'' (JInt 0),
                  row_alerts = length model_alerts \<rparr>]))"

definition check_performance ::
  "checker \<Rightarrow> evaluation_results \<Rightarrow> py_error + (alert list \<times> summary_row list)" where
  "check_performance self res = check_models self (results res) [] []"

text \<open>
  Vocabulary of the threshold claims. The code has no direction field: the rule for
  \<open>rmse\<close> is the one lower-is-better rule, every other rule is higher-is-better, and
  the two statuses are written \<open>high\<close> and \<open>low\<close>. A sample is numeric on a rule set
  when no metric of a rule holds a string in it.
\<close>

datatype direction = HigherIsBetter | LowerIsBetter

definition rule_direction :: "string \<Rightarrow> direction" where
  "rule_direction metric = (if metric = ''rmse'' then LowerIsBetter else HigherIsBetter)"

definition numeric_on :: "(string \<times> pyfloat) list \<Rightarrow> jmetrics \<Rightarrow> bool" where
  "numeric_on rules ms = list_all (\<lambda>(metric, threshold).
     case map_of ms metric of Some (JStr s) \<Rightarrow> False | _ \<Rightarrow> True) rules"

text \<open>The violation a rule records on a sample, if any, as the claims word it.\<close>

definition violation :: "jmetrics \<Rightarrow> string \<times> pyfloat \<Rightarrow> issue option" where
  "violation ms rule =
     (case rule of (metric, threshold) \<Rightarrow>
        (case map_of ms metric of
           None \<Rightarrow> None
         | Some v \<Rightarrow>
             (case num_of v of
                None \<Rightarrow> None
              | Some x \<Rightarrow>
                  (case rule_direction metric of
                     LowerIsBetter \<Rightarrow>
                       if fless threshold x then
                         Some \<lparr> issue_metric = metric, issue_value = v,
                                issue_threshold = threshold, issue_status = ''high'' \<rparr>
                       else None
                   | HigherIsBetter \<Rightarrow>
                       if fless x threshold then
                         Some \<lparr> issue_metric = metric, issue_value = v,
                                issue_threshold = threshold, issue_status = ''low'' \<rparr>
                       else None))))"

definition violations :: "(string \<times> pyfloat) list \<Rightarrow> jmetrics \<Rightarrow> issue list" where
  "violations rules ms = List.map_filter (violation ms) rules"

text \<open>
  The alert of one entity as the specification words it (\<open>evaluate(sample, rules)\<close>):
  none when no rule is violated, otherwise every violation in the order of the rules.
  \<open>summary_of\<close> is the row \<open>check_performance\<close> appends for an entity.
\<close>

definition evaluate :: "(string \<times> pyfloat) list \<Rightarrow> string \<times> jmetrics \<Rightarrow> alert option" where
  "evaluate rules sample =
     (case sample of (model_id, ms) \<Rightarrow>
        if violations rules ms = [] then None
        else Some \<lparr> alert_model_id = model_id, alert_alerts = violations rules ms,
                    alert_evaluation_time = map_of ms ''evaluated_at'' \<rparr>)"

definition summary_of :: "(string \<times> pyfloat) list \<Rightarrow> string \<times> jmetrics \<Rightarrow> summary_row" where
  "summary_of rules sample =
     (case sample of (model_id, ms) \<Rightarrow>
        \<lparr> row_model_id = model_id,
          row_directional_accuracy = dict_get ms ''directional_accuracy'' (JInt 0),
          row_interval_accuracy = dict_get ms ''interval_accuracy'' (JInt 0),
          row_rmse = dict_get ms ''rmse'' (JFloat PInf),
          row_profit_correlation = dict_get ms ''profit_correlation'' (JInt 0),
          row_alerts = length (violations rules ms) \<rparr>)"

subsection \<open>The report and the exposition file of the checker\<close>

text \<open>
  \<open>pd.DataFrame(summary)\<close>. A column of the frame has one dtype: \<open>object\<close> when it
  holds a string, otherwise \<open>float64\<close> when it holds a float, otherwise \<open>int64\<close>. In
  a \<open>float64\<close> column every \<open>int\<close> has become the float of the same value; the
  other columns keep their values. \<open>data_frame\<close> gives the rows of the frame.
\<close>

datatype dtype = Int64 | Float64 | Object

fun is_str :: "jval \<Rightarrow> bool" where
  "is_str (JStr s) = True"
| "is_str _ = False"

fun is_float :: "jval \<Rightarrow> bool" where
  "is_float (JFloat x) = True"
| "is_float _ = False"

definition column_dtype :: "jval list \<Rightarrow> dtype" where
  "column_dtype vs =
     (if list_ex is_str vs then Object else if list_ex is_float vs then Float64 else Int64)"

fun cell :: "dtype \<Rightarrow> jval \<Rightarrow> jval" where
  "cell Float64 (JInt i) = JFloat (Fin (real_of_int i))"
| "cell dt v = v"

definition data_frame :: "summary_row list \<Rightarrow> summary_row list" where
  "data_frame summary =
     map (\<lambda>row.
       row\<lparr> row_directional_accuracy :=
              cell (column_dtype (map row_directional_accuracy summary))
                (row_directional_accuracy row),
            row_interval_accuracy :=
              cell (column_dtype (map row_interval_accuracy summary))
                (row_interval_accuracy row),
            row_rmse := cell (column_dtype (map row_rmse summary)) (row_rmse row),
            row_profit_correlation :=
              cell (column_dtype (map row_profit_correlation summary))
                (row_profit_correlation row) \<rparr>) summary"

text \<open>
  The number in a cell of a numeric column (\<open>the_num\<close>), and \<open>mean()\<close> and \<open>min()\<close>
  of a column. Both skip \<open>nan\<close>. On an \<open>object\<close> column \<open>mean\<close> raises \<open>TypeError\<close>;
  \<open>min\<close> raises it when the column mixes strings and numbers, and gives the least
  string when every value is a string. \<open>min\<close> of an \<open>int64\<close> column is an \<open>int\<close>.
\<close>

definition the_num :: "jval \<Rightarrow> pyfloat" where
  "the_num v = (case num_of v of Some x \<Rightarrow> x | None \<Rightarrow> NaN)"

fun the_int :: "jval \<Rightarrow> int" where
  "the_int (JInt i) = i"
| "the_int _ = 0"

fun the_str :: "jval \<Rightarrow> string" where
  "the_str (JStr s) = s"
| "the_str _ = []"

fun fadd :: "pyfloat \<Rightarrow> pyfloat \<Rightarrow> pyfloat" where
  "fadd NaN _ = NaN"
| "fadd _ NaN = NaN"
| "fadd (Fin a) (Fin b) = Fin (a + b)"
| "fadd (Fin a) PInf = PInf"
| "fadd (Fin a) NInf = NInf"
| "fadd PInf NInf = NaN"
| "fadd PInf _ = PInf"
| "fadd NInf PInf = NaN"
| "fadd NInf _ = NInf"

fun fdiv_count :: "pyfloat \<Rightarrow> nat \<Rightarrow> pyfloat" where
  "fdiv_count (Fin a) n = Fin (a / real n)"
| "fdiv_count x n = x"

definition pd_mean :: "pyfloat list \<Rightarrow> pyfloat" where
  "pd_mean xs =
     (let ys = filter (\<lambda>x. x \<noteq> NaN) xs
      in if ys = [] then NaN else fdiv_count (foldl fadd (Fin 0) ys) (length ys))"

definition pd_min :: "pyfloat list \<Rightarrow> pyfloat" where
  "pd_min xs =
     (let ys = filter (\<lambda>x. x \<noteq> NaN) xs
      in if ys = [] then NaN else foldl (\<lambda>m x. if fless x m then x else m) (hd ys) (tl ys))"

fun str_less :: "string \<Rightarrow> string \<Rightarrow> bool" where
  "str_less [] [] = False"
| "str_less [] (b # bs) = True"
| "str_less (a # as) [] = False"
| "str_less (a # as) (b # bs) =
     ((of_char a :: nat) < of_char b \<or> (a = b \<and> str_less as bs))"

definition column_mean :: "jval list \<Rightarrow> py_error + pyfloat" where
  "column_mean vs =
     (if column_dtype vs = Object then Inl TypeError else Inr (pd_mean (map the_num vs)))"

definition column_min :: "jval list \<Rightarrow> py_error + jval" where
  "column_min vs =
     (case column_dtype vs of
        Object \<Rightarrow>
          if list_all is_str vs then
            Inr (JStr (foldl (\<lambda>m x. if str_less x m then x else m)
                         (hd (map the_str vs)) (tl (map the_str vs))))
          else Inl TypeError
      | Float64 \<Rightarrow> Inr (JFloat (pd_min (map the_num vs)))
      | Int64 \<Rightarrow> Inr (JInt (foldl min (hd (map the_int vs)) (tl (map the_int vs)))))"

text \<open>
  \<open>DataFrame.nlargest(n, column)\<close> with the default \<open>keep='first'\<close>: the rows in
  descending order of the column, rows with equal values in their original order,
  \<open>nan\<close> last, cut to \<open>n\<close> rows. \<open>ranks_before a b\<close>: a row with value \<open>a\<close> stands
  strictly before a row with value \<open>b\<close>. The sort is an insertion sort from the
  right, which keeps the original order of equal values.
\<close>

fun ranks_before :: "pyfloat \<Rightarrow> pyfloat \<Rightarrow> bool" where
  "ranks_before NaN _ = False"
| "ranks_before _ NaN = True"
| "ranks_before a b = fless b a"

fun insert_desc :: "('a \<Rightarrow> pyfloat) \<Rightarrow> 'a \<Rightarrow> 'a list \<Rightarrow> 'a list" where
  "insert_desc key x [] = [x]"
| "insert_desc key x (y # ys) =
     (if ranks_before (key y) (key x) then y # insert_desc key x ys else x # y # ys)"

definition sort_desc :: "('a \<Rightarrow> pyfloat) \<Rightarrow> 'a list \<Rightarrow> 'a list" where
  "sort_desc key xs = foldr (insert_desc key) xs []"

definition nlargest :: "nat \<Rightarrow> ('a \<Rightarrow> pyfloat) \<Rightarrow> 'a list \<Rightarrow> 'a list" where
  "nlargest n key xs = take n (sort_desc key xs)"

text \<open>
  Python's formatting of a finite float under the format specifications \<open>.2%\<close>,
  \<open>.4f\<close>, \<open>.2f\<close> and under \<open>str\<close> is a parameter; the special values are written
  out. An \<open>int\<close> formats under a specification as the float of the same value;
  formatting a string under one raises \<open>ValueError\<close>. \<open>str\<close> of an \<open>int\<close> is its
  decimal notation, \<open>str\<close> of a string the string.
\<close>

record formats =
  fmt_pct2 :: "real \<Rightarrow> string"
  fmt_f4 :: "real \<Rightarrow> string"
  fmt_f2 :: "real \<Rightarrow> string"
  fmt_str :: "real \<Rightarrow> string"

fun format_pct :: "(real \<Rightarrow> string) \<Rightarrow> pyfloat \<Rightarrow> string" where
  "format_pct f (Fin x) = f x"
| "format_pct f PInf = ''inf%''"
| "format_pct f NInf = ''-inf%''"
| "format_pct f NaN = ''nan%''"

definition format_val :: "(pyfloat \<Rightarrow> string) \<Rightarrow> jval \<Rightarrow> py_error + string" where
  "format_val f v = (case num_of v of Some x \<Rightarrow> Inr (f x) | None \<Rightarrow> Inl ValueError)"

fun str_nat :: "nat \<Rightarrow> string" where
  "str_nat n =
     (if n < 10 then [''0123456789'' ! n]
      else str_nat (n div 10) @ [''0123456789'' ! (n mod 10)])"

declare str_nat.simps [simp del]

definition str_int :: "int \<Rightarrow> string" where
  "str_int i = (if i < 0 then ''-'' @ str_nat (nat (- i)) else str_nat (nat i))"

fun str_val :: "(real \<Rightarrow> string) \<Rightarrow> jval \<Rightarrow> string" where
  "str_val f (JFloat x) = str_float f x"
| "str_val f (JInt i) = str_int i"
| "str_val f (JStr s) = s"

text \<open>The literal text of the report, as the bytes of the source file.\<close>

definition bullet :: string where
  "bullet = [CHR 0xC3, CHR 0xA2, CHR 0xE2, CHR 0x82, CHR 0xAC, CHR 0xC2, CHR 0xA2]"

definition cross :: string where
  "cross = [CHR 0xC3, CHR 0xA2, CHR 0xC5, CHR 0x92]"

definition report_title :: string where
  "report_title =
     [CHR 0xC3, CHR 0xB0, CHR 0xC5, CHR 0xB8, CHR 0xE2, CHR 0x80, CHR 0x9D] @
     '' Model Performance Report''"

definition nl :: string where
  "nl = [CHR 0x0A]"

datatype block = Header string | Section string

text \<open>The two loops that build \<open>alert_text\<close>.\<close>

fun issues_text :: "formats \<Rightarrow> issue list \<Rightarrow> string \<Rightarrow> py_error + string" where
  "issues_text fm [] alert_text = Inr alert_text"
| "issues_text fm (i # rest) alert_text =
     (case format_val (format_pct (fmt_pct2 fm)) (issue_value i) of
        Inl e \<Rightarrow> Inl e
      | Inr shown \<Rightarrow>
          issues_text fm rest
            (alert_text @
               bullet @ '' '' @ issue_metric i @ '': '' @ shown @ '' ('' @
               (if issue_status i = ''high'' then cross @ '' Too high''
                else cross @ '' Too low'') @
               '', threshold: '' @ format_pct (fmt_pct2 fm) (issue_threshold i) @ '')'' @ nl))"

fun alerts_text :: "formats \<Rightarrow> alert list \<Rightarrow> string \<Rightarrow> py_error + string" where
  "alerts_text fm [] alert_text = Inr alert_text"
| "alerts_text fm (a # rest) alert_text =
     (case issues_text fm (alert_alerts a)
             (alert_text @ nl @ ''*Model '' @ alert_model_id a @ ''*'' @ nl) of
        Inl e \<Rightarrow> Inl e
      | Inr alert_text' \<Rightarrow> alerts_text fm rest alert_text')"

text \<open>
  \<open>top_models\<close>: the three rows of the frame with the largest
  \<open>directional_accuracy\<close>. An empty \<open>summary\<close> gives a frame with no columns, and
  the column lookup raises \<open>KeyError\<close>; on an \<open>object\<close> column \<open>nlargest\<close> raises
  \<open>TypeError\<close>.
\<close>

definition top_models :: "summary_row list \<Rightarrow> py_error + summary_row list" where
  "top_models summary =
     (if summary = [] then Inl KeyError
      else if column_dtype (map row_directional_accuracy summary) = Object then Inl TypeError
      else Inr (nlargest 3 (\<lambda>r. the_num (row_directional_accuracy r)) (data_frame summary)))"

fun models_text :: "formats \<Rightarrow> summary_row list \<Rightarrow> string \<Rightarrow> py_error + string" where
  "models_text fm [] summary_text = Inr summary_text"
| "models_text fm (model # rest) summary_text =
     (case format_val (format_pct (fmt_pct2 fm)) (row_directional_accuracy model) of
        Inl e \<Rightarrow> Inl e
      | Inr da \<Rightarrow>
     (case format_val (format_pct (fmt_pct2 fm)) (row_interval_accuracy model) of
        Inl e \<Rightarrow> Inl e
      | Inr ia \<Rightarrow>
     (case format_val (str_float (fmt_f4 fm)) (row_rmse model) of
        Inl e \<Rightarrow> Inl e
      | Inr rm \<Rightarrow>
     (case format_val (str_float (fmt_f2 fm)) (row_profit_correlation model) of
        Inl e \<Rightarrow> Inl e
      | Inr pc \<Rightarrow>
          models_text fm rest
            (summary_text @
               nl @ ''*Model '' @ row_model_id model @ ''*'' @ nl @
               bullet @ '' Directional Accuracy: '' @ da @ nl @
               bullet @ '' Interval Accuracy: '' @ ia @ nl @
               bullet @ '' RMSE: '' @ rm @ nl @
               bullet @ '' Profit Correlation: '' @ pc @ nl)))))"

text \<open>
  A line of the statistics: a float is formatted under \<open>.2%\<close>, any other value
  (\<open>isinstance(value, float)\<close> is false) is printed as it is.
\<close>

fun stat_text :: "formats \<Rightarrow> jval \<Rightarrow> string" where
  "stat_text fm (JFloat x) = format_pct (fmt_pct2 fm) x"
| "stat_text fm (JInt i) = str_int i"
| "stat_text fm (JStr s) = s"

text \<open>
  \<open>format_alert_message\<close> and \<open>export_metrics\<close> of the checker. Neither reads a
  field of \<open>self\<close>. The mean is a float; the minimum of \<open>rmse\<close> is a float or, when
  every \<open>rmse\<close> is an \<open>int\<close>, an \<open>int\<close>; the two counts are \<open>int\<close>.
\<close>

definition format_alert_message ::
  "checker \<Rightarrow> formats \<Rightarrow> alert list \<Rightarrow> summary_row list \<Rightarrow> py_error + block list" where
  "format_alert_message self fm alerts summary =
     (case (if alerts \<noteq> [] then
              (case alerts_text fm alerts (''*Performance Alerts:*'' @ nl) of
                 Inl e \<Rightarrow> Inl e
               | Inr alert_text \<Rightarrow> Inr [Header report_title, Section alert_text])
            else Inr [Header report_title]) of
        Inl e \<Rightarrow> Inl e
      | Inr blocks \<Rightarrow>
     (case top_models summary of
        Inl e \<Rightarrow> Inl e
      | Inr top3 \<Rightarrow>
     (case models_text fm top3 (''*Top Performing Models:*'' @ nl) of
        Inl e \<Rightarrow> Inl e
      | Inr summary_text \<Rightarrow>
     (case column_mean (map row_directional_accuracy summary) of
        Inl e \<Rightarrow> Inl e
      | Inr mean_da \<Rightarrow>
     (case column_min (map row_rmse summary) of
        Inl e \<Rightarrow> Inl e
      | Inr min_rmse \<Rightarrow>
          Inr (blocks @
               [Section summary_text,
                Section
                  (''*Overall Statistics:*'' @ nl @
                   bullet @ '' Average Directional Accuracy: '' @
                     stat_text fm (JFloat mean_da) @ nl @
                   bullet @ '' Best RMSE: '' @ stat_text fm min_rmse @ nl @
                   bullet @ '' Models with Alerts: '' @
                     stat_text fm (JInt (int (sum_list (map row_alerts summary)))) @ nl @
                   bullet @ '' Total Models: '' @
                     stat_text fm (JInt (int (length summary))) @ nl)]))))))"

fun export_rows :: "formats \<Rightarrow> summary_row list \<Rightarrow> string list \<Rightarrow> string list" where
  "export_rows fm [] metrics = metrics"
| "export_rows fm (row # rest) metrics =
     export_rows fm rest
       (metrics @
          [''model_performance{model_id=\"'' @ row_model_id row @ ''\"}_directional_accuracy '' @
             str_val (fmt_str fm) (row_directional_accuracy row),
           ''model_performance{model_id=\"'' @ row_model_id row @ ''\"}_interval_accuracy '' @
             str_val (fmt_str fm) (row_interval_accuracy row),
           ''model_performance{model_id=\"'' @ row_model_id row @ ''\"}_rmse '' @
             str_val (fmt_str fm) (row_rmse row),
           ''model_performance{model_id=\"'' @ row_model_id row @ ''\"}_profit_correlation '' @
             str_val (fmt_str fm) (row_profit_correlation row),
           ''model_performance{model_id=\"'' @ row_model_id row @ ''\"}_alerts '' @
             str_nat (row_alerts row)])"

definition checker_export_metrics ::
  "checker \<Rightarrow> formats \<Rightarrow> summary_row list \<Rightarrow> py_error + string" where
  "checker_export_metrics self fm summary =
     (if summary = [] then Inl KeyError
      else case column_mean (map row_directional_accuracy summary) of
             Inl e \<Rightarrow> Inl e
           | Inr mean_da \<Rightarrow>
          (case column_min (map row_rmse summary) of
             Inl e \<Rightarrow> Inl e
           | Inr min_rmse \<Rightarrow>
               Inr (join_lines
                 (export_rows fm (data_frame summary)
                    [''model_performance_directional_accuracy_avg '' @
                       str_float (fmt_str fm) mean_da,
                     ''model_performance_rmse_min '' @ str_val (fmt_str fm) min_rmse,
                     ''model_performance_alerts_total '' @
                       str_nat (sum_list (map row_alerts summary))]))))"

text \<open>
  The timestamp fields: \<open>evaluated_at\<close> in a metrics dictionary of the input and
  \<open>evaluation_time\<close> in an alert (\<open>timestamp\<close> of the results is a field of its
  own). \<open>strip_time\<close> is a metrics dictionary without its timestamp, \<open>without_time\<close>
  an alert without its evaluation time.
\<close>

definition strip_time :: "jmetrics \<Rightarrow> jmetrics" where
  "strip_time ms = filter (\<lambda>(k, v). k \<noteq> ''evaluated_at'') ms"

definition without_time :: "alert \<Rightarrow> alert" where
  "without_time a = a\<lparr> alert_evaluation_time := None \<rparr>"

text \<open>
  Two outcomes of \<open>check_performance\<close> agree up to the timestamps: the same
  exception, or the same summary and the same alerts but for their evaluation time.
\<close>

definition same_outcome ::
  "py_error + (alert list \<times> summary_row list) \<Rightarrow>
   py_error + (alert list \<times> summary_row list) \<Rightarrow> bool" where
  "same_outcome r1 r2 =
     (case r1 of
        Inl e1 \<Rightarrow> (case r2 of Inl e2 \<Rightarrow> e1 = e2 | Inr p2 \<Rightarrow> False)
      | Inr p1 \<Rightarrow>
          (case r2 of
             Inl e2 \<Rightarrow> False
           | Inr p2 \<Rightarrow> snd p1 = snd p2 \<and> map without_time (fst p1) = map without_time (fst p2)))"

section \<open>analyze\_costs.py\<close>

text \<open>
  A row of the frame \<open>load_cost_data\<close> builds, and a row of \<open>service_costs\<close>. Dates
  are of any linearly ordered type (ISO date strings in the script).
\<close>

record 'd cost_row =
  date :: 'd
  service :: string
  cost :: real
  cost_unit :: string

record service_cost =
  sc_service :: string
  total_cost :: pyfloat
  avg_cost :: pyfloat
  std_cost :: pyfloat
  cost_percentage :: pyfloat







text \<open>
  \<open>export_metrics\<close> of the cost script: one line per item of \<open>daily_stats\<close>, then two
  lines per row of \<open>service_costs\<close>.
\<close>

fun export_daily :: "(real \<Rightarrow> string) \<Rightarrow> (string \<times> pyfloat) list \<Rightarrow> string list \<Rightarrow> string list" where
  "export_daily str_real [] metrics = metrics"
| "export_daily str_real ((metric, v) # rest) metrics =
     export_daily str_real rest
       (metrics @ [''aws_cost_'' @ metric @ '' '' @ str_float str_real v])"

fun export_services :: "(real \<Rightarrow> string) \<Rightarrow> service_cost list \<Rightarrow> string list \<Rightarrow> string list" where
  "export_services str_real [] metrics = metrics"
| "export_services str_real (row # rest) metrics =
     export_services str_real rest
       (metrics @
          [''aws_cost_service_total{service=\"'' @
             str_replace CHR '':'' CHR ''_'' (str_replace CHR ''-'' CHR ''_'' (sc_service row)) @
             ''\"} '' @ str_float str_real (total_cost row),
           ''aws_cost_service_percentage{service=\"'' @
             str_replace CHR '':'' CHR ''_'' (str_replace CHR ''-'' CHR ''_'' (sc_service row)) @
             ''\"} '' @ str_float str_real (cost_percentage row)])"

definition cost_export_metrics ::
  "(real \<Rightarrow> string) \<Rightarrow> (string \<times> pyfloat) list \<Rightarrow> service_cost list \<Rightarrow> string" where
  "cost_export_metrics str_real daily_stats service_costs =
     join_lines (export_services str_real service_costs (export_daily str_real daily_stats []))"

section \<open>Collection of predictions and the error budget\<close>

lemma get_predictions_loop_eq:
  "get_predictions_loop api model_id rows predictions errors =
     (predictions @ map (api model_id) rows,
      errors + length (filter (\<lambda>row. api model_id row = None) rows))"
proof (induction rows arbitrary: predictions errors)
  case Nil
  show ?case by simp
next
  case (Cons row rows)
  show ?case
    by (cases "api model_id row") (simp_all add: Cons.IH)
qed

lemma get_predictions_eq:
  "get_predictions api model_id data =
     (if real (length (filter (\<lambda>row. api model_id row = None) data)) >
           real (length data) * (1 / 10)
      then None else Some (map (api model_id) data))"
  by (simp add: get_predictions_def get_predictions_loop_eq)

lemma subscript_all_None: "None \<in> set ps \<Longrightarrow> subscript_all ps = Inl TypeError"
proof (induction ps)
  case Nil
  then show ?case by simp
next
  case (Cons p ps)
  show ?case
  proof (cases p)
    case None
    then show ?thesis by simp
  next
    case (Some q)
    with Cons.prems have "None \<in> set ps" by simp
    from Cons.IH [OF this] Some show ?thesis by simp
  qed
qed


lemma evaluate_models_loop_skip:
  assumes "evaluate_model np api data now model_id = Inr None"
  shows "evaluate_models_loop np api data now (pre @ model_id # post) self =
         evaluate_models_loop np api data now (pre @ post) self"
proof (induction pre arbitrary: self)
  case Nil
  from assms show ?case by simp
next
  case (Cons m pre)
  show ?case
  proof (cases "evaluate_model np api data now m")
    case (Inl e)
    then show ?thesis by simp
  next
    case (Inr r)
    show ?thesis
    proof (cases r)
      case None
      with Inr Cons.IH show ?thesis by simp
    next
      case (Some metrics)
      with Inr Cons.IH show ?thesis
        by (simp add: Let_def split: option.splits pyval.splits)
    qed
  qed
qed

text \<open>
  C1. When the number of rows whose prediction call fails exceeds 10\% of the number
  of rows, \<open>get_predictions\<close> returns \<open>None\<close> (the predictions collected so far are
  dropped), \<open>evaluate_model\<close> returns \<open>None\<close> and raises nothing, so no metrics are
  produced for the entity; in \<open>evaluate_all_models\<close> the step of this entity leaves
  the evaluator as it was, and a run over a list of models that holds the entity
  gives what the run over the list without it gives. The comparison of the code is
  \<open>errors > len(data) * 0.1\<close>, read here over the reals.
\<close>

theorem error_budget_abandons_entity:
  assumes "real (length (filter (\<lambda>row. api model_id row = None) data)) >
             real (length data) * (1 / 10)"
  shows "get_predictions api model_id data = None \<and>
         evaluate_model np api data now model_id = Inr None \<and>
         (\<forall>self. evaluate_models_loop np api data now [model_id] self = Inr self) \<and>
         (\<forall>pre post self.
            evaluate_models_loop np api data now (pre @ model_id # post) self =
            evaluate_models_loop np api data now (pre @ post) self) \<and>
         (\<forall>pre post self.
            evaluate_all_models np api (Some data) (Some (pre @ model_id # post)) now self =
            evaluate_all_models np api (Some data) (Some (pre @ post)) now self)"
proof -
  from assms have none: "get_predictions api model_id data = None"
    by (simp add: get_predictions_eq)
  then have skip: "evaluate_model np api data now model_id = Inr None"
    by (simp add: evaluate_model_def)
  have one: "\<forall>self. evaluate_models_loop np api data now [model_id] self = Inr self"
    using skip by simp
  have run: "\<forall>pre post self.
            evaluate_models_loop np api data now (pre @ model_id # post) self =
            evaluate_models_loop np api data now (pre @ post) self"
    using evaluate_models_loop_skip [OF skip] by blast
  have whole: "\<forall>pre post self.
            evaluate_all_models np api (Some data) (Some (pre @ model_id # post)) now self =
            evaluate_all_models np api (Some data) (Some (pre @ post)) now self"
    using run by (simp add: evaluate_all_models_def)
  from none skip one run whole show ?thesis
    by blast
qed

text \<open>
  C7. When at least one prediction call fails and the number of failures does not
  exceed 10\% of the rows, \<open>get_predictions\<close> returns the list with \<open>None\<close> at each
  failed position and the decoded prediction elsewhere, and \<open>evaluate_model\<close>
  raises \<open>TypeError\<close> (it subscripts a \<open>None\<close>): no metrics are computed from the
  rows that succeeded.
\<close>

theorem partial_failures_raise:
  assumes some: "\<exists>row \<in> set data. api model_id row = None"
    and within: "\<not> real (length (filter (\<lambda>row. api model_id row = None) data)) >
                    real (length data) * (1 / 10)"
  shows "get_predictions api model_id data = Some (map (api model_id) data) \<and>
         (\<forall>i < length data.
            (map (api model_id) data ! i = None) = (api model_id (data ! i) = None)) \<and>
         evaluate_model np api data now model_id = Inl TypeError"
proof -
  from within have got: "get_predictions api model_id data = Some (map (api model_id) data)"
    by (simp add: get_predictions_eq)
  from some have "None \<in> set (map (api model_id) data)"
    by force
  then have "subscript_all (map (api model_id) data) = Inl TypeError"
    by (rule subscript_all_None)
  with got have "evaluate_model np api data now model_id = Inl TypeError"
    by (simp add: evaluate_model_def)
  with got show ?thesis by simp
qed

theorem error_budget_abandons_entity_witness:
  "real (length (filter
      (\<lambda>row. (if features row then Some \<lparr> predicted_high = 1, predicted_low = 1, confidence = 1 \<rparr>
               else None) = None)
      (replicate 85 \<lparr> actual_price = 1, features = True \<rparr> @
       replicate 15 \<lparr> actual_price = 1, features = False \<rparr>))) >
     real (length (replicate 85 \<lparr> actual_price = 1, features = True \<rparr> @
                   replicate 15 \<lparr> actual_price = 1, features = False \<rparr>)) * (1 / 10) \<and>
   get_predictions
     (\<lambda>model_id row.
        if features row then Some \<lparr> predicted_high = 1, predicted_low = 1, confidence = 1 \<rparr>
        else None)
     ''m1''
     (replicate 85 \<lparr> actual_price = 1, features = True \<rparr> @
      replicate 15 \<lparr> actual_price = 1, features = False \<rparr>) = None \<and>
   evaluate_models_loop
     \<lparr> mean_of = (\<lambda>xs. sum_list xs / real (length xs)),
       sq_dev_of = (\<lambda>xs. \<Sum>x \<leftarrow> xs. (x - sum_list xs / real (length xs))\<^sup>2),
       corrcoef_of = (\<lambda>xs ys. NaN) \<rparr>
     (\<lambda>model_id row.
        if features row then Some \<lparr> predicted_high = 1, predicted_low = 1, confidence = 1 \<rparr>
        else None)
     (replicate 85 \<lparr> actual_price = 1, features = True \<rparr> @
      replicate 15 \<lparr> actual_price = 1, features = False \<rparr>)
     (\<lambda>model_id. ''t'') [''m1'']
     \<lparr> ev_results = [], ev_alert_threshold = Fin (8 / 10), ev_slack_webhook_url = None,
       ev_sent = [] \<rparr> =
   Inr \<lparr> ev_results = [], ev_alert_threshold = Fin (8 / 10), ev_slack_webhook_url = None,
         ev_sent = [] \<rparr>"
proof -
  let ?api = "\<lambda>(model_id :: string) row.
        if features row then Some \<lparr> predicted_high = 1, predicted_low = 1, confidence = 1 \<rparr>
        else None"
  let ?data = "replicate 85 \<lparr> actual_price = 1, features = True \<rparr> @
       replicate 15 \<lparr> actual_price = 1, features = False \<rparr>"
  have h: "real (length (filter (\<lambda>row. ?api ''m1'' row = None) ?data)) >
             real (length ?data) * (1 / 10)"
    by simp
  from error_budget_abandons_entity
    [where api = ?api and model_id = "''m1''" and data = ?data and now = "\<lambda>model_id. ''t''"
       and np = "\<lparr> mean_of = (\<lambda>xs. sum_list xs / real (length xs)),
                   sq_dev_of = (\<lambda>xs. \<Sum>x \<leftarrow> xs. (x - sum_list xs / real (length xs))\<^sup>2),
                   corrcoef_of = (\<lambda>xs ys. NaN) \<rparr>", OF h] h
  show ?thesis
    by simp
qed

theorem partial_failures_raise_witness:
  "(\<exists>row \<in> set (replicate 9 \<lparr> actual_price = 1, features = True \<rparr> @
                  [\<lparr> actual_price = 1, features = False \<rparr>]).
      (if features row then Some \<lparr> predicted_high = 1, predicted_low = 1, confidence = 1 \<rparr>
       else None) = None) \<and>
   \<not> real (length (filter
      (\<lambda>row. (if features row then Some \<lparr> predicted_high = 1, predicted_low = 1, confidence = 1 \<rparr>
               else None) = None)
      (replicate 9 \<lparr> actual_price = 1, features = True \<rparr> @
       [\<lparr> actual_price = 1, features = False \<rparr>]))) >
     real (length (replicate 9 \<lparr> actual_price = 1, features = True \<rparr> @
                   [\<lparr> actual_price = 1, features = False \<rparr>])) * (1 / 10) \<and>
   get_predictions
     (\<lambda>model_id row.
        if features row then Some \<lparr> predicted_high = 1, predicted_low = 1, confidence = 1 \<rparr>
        else None)
     ''m1''
     (replicate 9 \<lparr> actual_price = 1, features = True \<rparr> @
      [\<lparr> actual_price = 1, features = False \<rparr>]) =
     Some (replicate 9 (Some \<lparr> predicted_high = 1, predicted_low = 1, confidence = 1 \<rparr>) @ [None]) \<and>
   evaluate_model
     \<lparr> mean_of = (\<lambda>xs. sum_list xs / real (length xs)),
       sq_dev_of = (\<lambda>xs. \<Sum>x \<leftarrow> xs. (x - sum_list xs / real (length xs))\<^sup>2),
       corrcoef_of = (\<lambda>xs ys. NaN) \<rparr>
     (\<lambda>model_id row.
        if features row then Some \<lparr> predicted_high = 1, predicted_low = 1, confidence = 1 \<rparr>
        else None)
     (replicate 9 \<lparr> actual_price = 1, features = True \<rparr> @
      [\<lparr> actual_price = 1, features = False \<rparr>])
     (\<lambda>model_id. ''t'') ''m1'' = Inl TypeError"
proof -
  let ?api = "\<lambda>(model_id :: string) row.
        if features row then Some \<lparr> predicted_high = 1, predicted_low = 1, confidence = 1 \<rparr>
        else None"
  let ?data = "replicate 9 \<lparr> actual_price = 1, features = True \<rparr> @
       [\<lparr> actual_price = 1, features = False \<rparr>]"
  have some: "\<exists>row \<in> set ?data. ?api ''m1'' row = None"
    by simp
  have within: "\<not> real (length (filter (\<lambda>row. ?api ''m1'' row = None) ?data)) >
                    real (length ?data) * (1 / 10)"
    by simp
  from partial_failures_raise
    [where api = ?api and model_id = "''m1''" and data = ?data and now = "\<lambda>model_id. ''t''"
       and np = "\<lparr> mean_of = (\<lambda>xs. sum_list xs / real (length xs)),
                   sq_dev_of = (\<lambda>xs. \<Sum>x \<leftarrow> xs. (x - sum_list xs / real (length xs))\<^sup>2),
                   corrcoef_of = (\<lambda>xs ys. NaN) \<rparr>",
     OF some within]
    some within
  show ?thesis
    by simp
qed

section \<open>Metrics of exact predictions\<close>












section \<open>Threshold evaluation\<close>

lemma fless_irrefl: "\<not> fless x x"
  by (cases x) simp_all

lemma check_thresholds_numeric:
  "numeric_on rules ms \<Longrightarrow>
     check_thresholds ms rules acc = Inr (acc @ violations rules ms)"
proof (induction rules arbitrary: acc)
  case Nil
  show ?case by (simp add: violations_def List.map_filter_simps)
next
  case (Cons rule rules)
  obtain metric threshold where rule: "rule = (metric, threshold)"
    by (cases rule)
  from Cons.prems have rest: "numeric_on rules ms"
    by (simp add: numeric_on_def)
  note IH = Cons.IH [OF rest]
  from Cons.prems rule have nostr: "\<And>s. map_of ms metric \<noteq> Some (JStr s)"
    by (auto simp: numeric_on_def split: option.splits jval.splits)
  show ?case
  proof (cases "map_of ms metric")
    case None
    then show ?thesis
      using IH rule
      by (simp add: violations_def violation_def List.map_filter_simps)
  next
    case (Some pv)
    with nostr obtain x where pv: "num_of pv = Some x"
      by (cases pv) (auto simp: num_of_def)
    show ?thesis
      using IH Some pv rule
      by (simp add: violations_def violation_def rule_direction_def
          List.map_filter_simps)
  qed
qed

lemma check_thresholds_string:
  "\<not> numeric_on rules ms \<Longrightarrow> check_thresholds ms rules acc = Inl TypeError"
proof (induction rules arbitrary: acc)
  case Nil
  then show ?case by (simp add: numeric_on_def)
next
  case (Cons rule rules)
  obtain metric threshold where rule: "rule = (metric, threshold)"
    by (cases rule)
  show ?case
  proof (cases "map_of ms metric")
    case None
    with Cons.prems rule have "\<not> numeric_on rules ms"
      by (simp add: numeric_on_def)
    from Cons.IH [OF this] None rule show ?thesis by simp
  next
    case (Some pv)
    show ?thesis
    proof (cases "num_of pv")
      case None
      with Some rule show ?thesis by simp
    next
      case (Some x)
      then have "\<And>s. pv \<noteq> JStr s"
        by (auto simp: num_of_def)
      with \<open>map_of ms metric = Some pv\<close> Cons.prems rule have "\<not> numeric_on rules ms"
        by (cases pv) (auto simp: numeric_on_def)
      from Cons.IH [OF this] \<open>map_of ms metric = Some pv\<close> Some rule show ?thesis
        by (simp split: if_splits)
    qed
  qed
qed

lemma check_models_numeric:
  "list_all (\<lambda>(model_id, ms). numeric_on (thresholds self) ms) rs \<Longrightarrow>
     check_models self rs alerts summary =
       Inr (alerts @ List.map_filter (evaluate (thresholds self)) rs,
            summary @ map (summary_of (thresholds self)) rs)"
proof (induction rs arbitrary: alerts summary)
  case Nil
  show ?case by (simp add: List.map_filter_simps)
next
  case (Cons sample rs)
  obtain model_id ms where sample: "sample = (model_id, ms)"
    by (cases sample)
  from Cons.prems sample have num: "numeric_on (thresholds self) ms"
    and rest: "list_all (\<lambda>(model_id, ms). numeric_on (thresholds self) ms) rs"
    by simp_all
  have inner: "check_thresholds ms (thresholds self) [] = Inr (violations (thresholds self) ms)"
    using check_thresholds_numeric [OF num, of "[]"] by simp
  show ?case
    using Cons.IH [OF rest] sample inner
    by (simp add: evaluate_def summary_of_def List.map_filter_simps)
qed

lemma violation_metric: "violation ms (metric, threshold) = Some i \<Longrightarrow> issue_metric i = metric"
  by (auto simp: violation_def split: option.splits direction.splits if_splits)

lemma filter_violations_other:
  "metric \<notin> fst ` set rules \<Longrightarrow>
     filter (\<lambda>i. issue_metric i = metric) (violations rules ms) = []"
proof (induction rules)
  case Nil
  show ?case by (simp add: violations_def List.map_filter_simps)
next
  case (Cons rule rules)
  obtain m t where rule: "rule = (m, t)" by (cases rule)
  with Cons.prems have ne: "m \<noteq> metric" and rest: "metric \<notin> fst ` set rules"
    by auto
  from Cons.IH [OF rest] rule ne show ?case
    by (auto simp: violations_def List.map_filter_simps dest: violation_metric
        split: option.splits)
qed

lemma filter_violations_rule:
  "distinct (map fst rules) \<Longrightarrow> (metric, threshold) \<in> set rules \<Longrightarrow>
     filter (\<lambda>i. issue_metric i = metric) (violations rules ms) =
       (case violation ms (metric, threshold) of None \<Rightarrow> [] | Some i \<Rightarrow> [i])"
proof (induction rules)
  case Nil
  then show ?case by simp
next
  case (Cons rule rules)
  obtain m t where rule: "rule = (m, t)" by (cases rule)
  show ?case
  proof (cases "rule = (metric, threshold)")
    case True
    with Cons.prems have "metric \<notin> fst ` set rules"
      by auto
    from filter_violations_other [OF this, of ms] True show ?thesis
      by (auto simp: violations_def List.map_filter_simps dest: violation_metric
          split: option.splits)
  next
    case False
    with Cons.prems have mem: "(metric, threshold) \<in> set rules"
      and dist: "distinct (map fst rules)"
      by auto
    with Cons.prems rule have ne: "m \<noteq> metric"
      by force
    from Cons.IH [OF dist mem] rule ne show ?thesis
      by (auto simp: violations_def List.map_filter_simps dest: violation_metric
          split: option.splits)
  qed
qed

text \<open>
  C2. For a sample and a rule of the table whose metric is present in the sample with
  a value \<open>v\<close> that is a number (an \<open>int\<close> or a \<open>float\<close>, \<open>x\<close> as a float): the per-sample loop of \<open>check_performance\<close> returns, and what it
  records for that metric is, for the lower-is-better rule (\<open>rmse\<close>), one violation
  of status \<open>high\<close> exactly when \<open>x > threshold\<close>, and for a higher-is-better rule one
  violation of status \<open>low\<close> exactly when \<open>x < threshold\<close>; nothing is recorded when
  \<open>x\<close> equals the threshold. The statuses \<open>too_high\<close> and \<open>too_low\<close> of the
  specification are the strings \<open>high\<close> and \<open>low\<close> of the code.
\<close>

theorem threshold_rule_boundary:
  assumes rule: "(metric, threshold) \<in> set (thresholds self)"
    and dist: "distinct (map fst (thresholds self))"
    and present: "map_of ms metric = Some v"
    and number: "num_of v = Some x"
    and num: "numeric_on (thresholds self) ms"
  shows "\<exists>model_alerts.
           check_thresholds ms (thresholds self) [] = Inr model_alerts \<and>
           filter (\<lambda>i. issue_metric i = metric) model_alerts =
             (case rule_direction metric of
                LowerIsBetter \<Rightarrow>
                  if fless threshold x then
                    [\<lparr> issue_metric = metric, issue_value = v,
                       issue_threshold = threshold, issue_status = ''high'' \<rparr>]
                  else []
              | HigherIsBetter \<Rightarrow>
                  if fless x threshold then
                    [\<lparr> issue_metric = metric, issue_value = v,
                       issue_threshold = threshold, issue_status = ''low'' \<rparr>]
                  else []) \<and>
           (x = threshold \<longrightarrow> filter (\<lambda>i. issue_metric i = metric) model_alerts = [])"
proof -
  let ?out = "violations (thresholds self) ms"
  have run: "check_thresholds ms (thresholds self) [] = Inr ?out"
    using check_thresholds_numeric [OF num, of "[]"] by simp
  have sel: "filter (\<lambda>i. issue_metric i = metric) ?out =
      (case violation ms (metric, threshold) of None \<Rightarrow> [] | Some i \<Rightarrow> [i])"
    by (rule filter_violations_rule [OF dist rule])
  have shape: "(case violation ms (metric, threshold) of None \<Rightarrow> [] | Some i \<Rightarrow> [i]) =
      (case rule_direction metric of
         LowerIsBetter \<Rightarrow>
           if fless threshold x then
             [\<lparr> issue_metric = metric, issue_value = v,
                issue_threshold = threshold, issue_status = ''high'' \<rparr>]
           else []
       | HigherIsBetter \<Rightarrow>
           if fless x threshold then
             [\<lparr> issue_metric = metric, issue_value = v,
                issue_threshold = threshold, issue_status = ''low'' \<rparr>]
           else [])"
    using present number by (simp add: violation_def split: direction.splits)
  have boundary: "x = threshold \<longrightarrow> filter (\<lambda>i. issue_metric i = metric) ?out = []"
  proof
    assume "x = threshold"
    then have "\<not> fless x threshold" and "\<not> fless threshold x"
      by (simp_all add: fless_irrefl)
    with sel shape show "filter (\<lambda>i. issue_metric i = metric) ?out = []"
      by (simp split: direction.splits)
  qed
  from run sel shape boundary show ?thesis
    by simp
qed

text \<open>
  C9. On samples that are numeric on the rules, \<open>check_performance\<close> returns, and its
  alerts are, in the order of the entities, one alert for each entity with at least
  one violation and none for an entity with zero violations; the alert lists every
  violation of the entity in the order in which the rules are declared; a rule whose
  metric is absent from the sample records nothing.
\<close>

theorem alerts_list_violations_in_rule_order:
  assumes "list_all (\<lambda>(model_id, ms). numeric_on (thresholds self) ms) (results res)"
  shows "(\<exists>summary.
           check_performance self res =
             Inr (List.map_filter
                    (\<lambda>(model_id, ms).
                       if List.map_filter (violation ms) (thresholds self) = [] then None
                       else Some \<lparr> alert_model_id = model_id,
                                   alert_alerts = List.map_filter (violation ms) (thresholds self),
                                   alert_evaluation_time = map_of ms ''evaluated_at'' \<rparr>)
                    (results res),
                  summary)) \<and>
         (\<forall>ms metric threshold rest acc.
            map_of ms metric = None \<longrightarrow>
              violation ms (metric, threshold) = None \<and>
              check_thresholds ms ((metric, threshold) # rest) acc =
                check_thresholds ms rest acc)"
proof -
  have same: "evaluate (thresholds self) =
      (\<lambda>(model_id, ms).
         if List.map_filter (violation ms) (thresholds self) = [] then None
         else Some \<lparr> alert_model_id = model_id,
                     alert_alerts = List.map_filter (violation ms) (thresholds self),
                     alert_evaluation_time = map_of ms ''evaluated_at'' \<rparr>)"
    by (rule ext) (simp add: evaluate_def violations_def split: prod.splits)
  have run: "\<exists>summary.
           check_performance self res =
             Inr (List.map_filter
                    (\<lambda>(model_id, ms).
                       if List.map_filter (violation ms) (thresholds self) = [] then None
                       else Some \<lparr> alert_model_id = model_id,
                                   alert_alerts = List.map_filter (violation ms) (thresholds self),
                                   alert_evaluation_time = map_of ms ''evaluated_at'' \<rparr>)
                    (results res),
                  summary)"
    using check_models_numeric [OF assms, of "[]" "[]"] same
    by (simp add: check_performance_def)
  have skip: "\<forall>ms metric threshold rest acc.
            map_of ms metric = None \<longrightarrow>
              violation ms (metric, threshold) = None \<and>
              check_thresholds ms ((metric, threshold) # rest) acc =
                check_thresholds ms rest acc"
    by (simp add: violation_def)
  from run skip show ?thesis by (rule conjI)
qed

theorem threshold_rule_boundary_witness:
  "(''rmse'', Fin (2 / 100)) \<in> set (thresholds (checker_init NaN None)) \<and>
   distinct (map fst (thresholds (checker_init NaN None))) \<and>
   map_of [(''rmse'', JFloat (Fin (3 / 100)))] ''rmse'' = Some (JFloat (Fin (3 / 100))) \<and>
   numeric_on (thresholds (checker_init NaN None)) [(''rmse'', JFloat (Fin (3 / 100)))] \<and>
   (\<exists>model_alerts.
      check_thresholds [(''rmse'', JFloat (Fin (3 / 100)))]
        (thresholds (checker_init NaN None)) [] = Inr model_alerts \<and>
      filter (\<lambda>i. issue_metric i = ''rmse'') model_alerts =
        [\<lparr> issue_metric = ''rmse'', issue_value = JFloat (Fin (3 / 100)),
           issue_threshold = Fin (2 / 100), issue_status = ''high'' \<rparr>])"
proof -
  have h1: "(''rmse'', Fin (2 / 100)) \<in> set (thresholds (checker_init NaN None))"
    by (simp add: checker_init_def)
  have h2: "distinct (map fst (thresholds (checker_init NaN None)))"
    by (simp add: checker_init_def)
  have h3: "map_of [(''rmse'', JFloat (Fin (3 / 100)))] ''rmse'' = Some (JFloat (Fin (3 / 100)))"
    by simp
  have h3': "num_of (JFloat (Fin (3 / 100))) = Some (Fin (3 / 100))"
    by (simp add: num_of_def)
  have h4: "numeric_on (thresholds (checker_init NaN None)) [(''rmse'', JFloat (Fin (3 / 100)))]"
    by (simp add: checker_init_def numeric_on_def)
  from threshold_rule_boundary [OF h1 h2 h3 h3' h4] h1 h2 h3 h4 show ?thesis
    by (simp add: rule_direction_def)
qed

theorem alerts_list_violations_in_rule_order_witness:
  "list_all (\<lambda>(model_id, ms). numeric_on (thresholds (checker_init NaN None)) ms)
     (results \<lparr> timestamp = ''t'', results =
        [(''A'', [(''r2'', JFloat (Fin (1 / 2))), (''rmse'', JFloat (Fin (3 / 100))),
                  (''evaluated_at'', JStr ''t0'')]),
         (''B'', [(''rmse'', JFloat (Fin (2 / 100)))])] \<rparr>) \<and>
   (\<exists>summary.
      check_performance (checker_init NaN None)
        \<lparr> timestamp = ''t'', results =
           [(''A'', [(''r2'', JFloat (Fin (1 / 2))), (''rmse'', JFloat (Fin (3 / 100))),
                     (''evaluated_at'', JStr ''t0'')]),
            (''B'', [(''rmse'', JFloat (Fin (2 / 100)))])] \<rparr> =
      Inr ([\<lparr> alert_model_id = ''A'',
               alert_alerts =
                 [\<lparr> issue_metric = ''rmse'', issue_value = JFloat (Fin (3 / 100)),
                    issue_threshold = Fin (2 / 100), issue_status = ''high'' \<rparr>,
                  \<lparr> issue_metric = ''r2'', issue_value = JFloat (Fin (1 / 2)),
                    issue_threshold = Fin (70 / 100), issue_status = ''low'' \<rparr>],
               alert_evaluation_time = Some (JStr ''t0'') \<rparr>], summary))"
proof -
  let ?res = "\<lparr> timestamp = ''t'', results =
        [(''A'', [(''r2'', JFloat (Fin (1 / 2))), (''rmse'', JFloat (Fin (3 / 100))),
                  (''evaluated_at'', JStr ''t0'')]),
         (''B'', [(''rmse'', JFloat (Fin (2 / 100)))])] \<rparr>"
  have h: "list_all (\<lambda>(model_id, ms). numeric_on (thresholds (checker_init NaN None)) ms)
     (results ?res)"
    by (simp add: checker_init_def numeric_on_def)
  from alerts_list_violations_in_rule_order [OF h] h show ?thesis
    by (simp add: checker_init_def violation_def rule_direction_def num_of_def List.map_filter_simps)
qed

section \<open>Metric exposition\<close>

lemma export_result_eq:
  "export_result str_real model_id result lines =
     lines @ List.map_filter
       (\<lambda>(metric, v). case v of
          PNum x \<Rightarrow>
            Some (metric_line str_real model_id metric x)
        | PStr s \<Rightarrow> None) result"
proof (induction result arbitrary: lines)
  case Nil
  show ?case by (simp add: List.map_filter_simps)
next
  case (Cons entry result)
  obtain metric v where entry: "entry = (metric, v)" by (cases entry)
  show ?case
    by (cases v) (simp_all add: entry Cons.IH List.map_filter_simps)
qed

lemma export_results_eq:
  "export_results str_real all_results lines =
     lines @ concat (map (\<lambda>(model_id, result). List.map_filter
       (\<lambda>(metric, v). case v of
          PNum x \<Rightarrow>
            Some (metric_line str_real model_id metric x)
        | PStr s \<Rightarrow> None) result) all_results)"
proof (induction all_results arbitrary: lines)
  case Nil
  show ?case by simp
next
  case (Cons entry all_results)
  obtain model_id result where entry: "entry = (model_id, result)" by (cases entry)
  show ?case
    by (simp add: entry Cons.IH export_result_eq)
qed

lemma length_map_filter_num:
  "length (List.map_filter (\<lambda>(metric, v). case v of PNum x \<Rightarrow> Some (f metric x) | PStr s \<Rightarrow> None) result) =
   length (filter (\<lambda>(metric, v). case v of PNum x \<Rightarrow> True | PStr s \<Rightarrow> False) result)"
proof (induction result)
  case Nil
  show ?case by (simp add: List.map_filter_simps)
next
  case (Cons entry result)
  obtain metric v where entry: "entry = (metric, v)" by (cases entry)
  show ?case
    by (cases v) (simp_all add: entry Cons.IH List.map_filter_simps)
qed

lemma export_results_length:
  "length (export_results str_real all_results []) =
     (\<Sum>(model_id, result) \<leftarrow> all_results.
        length (filter (\<lambda>(metric, v). case v of PNum x \<Rightarrow> True | PStr s \<Rightarrow> False) result))"
proof -
  have "\<And>lines. length (export_results str_real all_results lines) = length lines +
     (\<Sum>(model_id, result) \<leftarrow> all_results.
        length (filter (\<lambda>(metric, v). case v of PNum x \<Rightarrow> True | PStr s \<Rightarrow> False) result))"
  proof (induction all_results)
    case Nil
    show ?case by simp
  next
    case (Cons entry all_results)
    obtain model_id result where entry: "entry = (model_id, result)" by (cases entry)
    show ?case
      by (simp add: entry Cons.IH export_result_eq length_map_filter_num)
  qed
  from this [of "[]"] show ?thesis by simp
qed

lemma export_results_mem:
  assumes "(model_id, result) \<in> set all_results" and "(metric, PNum x) \<in> set result"
  shows "metric_line str_real model_id metric x
         \<in> set (export_results str_real all_results [])"
proof -
  let ?f = "\<lambda>model_id. (\<lambda>(metric, v). case v of
          PNum x \<Rightarrow>
            Some (metric_line str_real model_id metric x)
        | PStr s \<Rightarrow> None)"
  from assms(2) have "metric_line str_real model_id metric x
         \<in> set (List.map_filter (?f model_id) result)"
    by (force simp: List.map_filter_def)
  with assms(1) show ?thesis
    unfolding export_results_eq by force
qed

lemma export_daily_eq:
  "export_daily str_real daily_stats metrics =
     metrics @ map (\<lambda>(metric, v). ''aws_cost_'' @ metric @ '' '' @ str_float str_real v) daily_stats"
proof (induction daily_stats arbitrary: metrics)
  case Nil
  show ?case by simp
next
  case (Cons entry daily_stats)
  obtain metric v where entry: "entry = (metric, v)" by (cases entry)
  show ?case by (simp add: entry Cons.IH)
qed

lemma export_services_eq:
  "export_services str_real service_costs metrics =
     metrics @ concat (map (\<lambda>row.
       [''aws_cost_service_total{service=\"'' @
          map (\<lambda>c. if c = CHR ''-'' \<or> c = CHR '':'' then CHR ''_'' else c) (sc_service row) @
          ''\"} '' @ str_float str_real (total_cost row),
        ''aws_cost_service_percentage{service=\"'' @
          map (\<lambda>c. if c = CHR ''-'' \<or> c = CHR '':'' then CHR ''_'' else c) (sc_service row) @
          ''\"} '' @ str_float str_real (cost_percentage row)]) service_costs)"
proof (induction service_costs arbitrary: metrics)
  case Nil
  show ?case by simp
next
  case (Cons row service_costs)
  have "str_replace CHR '':'' CHR ''_'' (str_replace CHR ''-'' CHR ''_'' (sc_service row)) =
      map (\<lambda>c. if c = CHR ''-'' \<or> c = CHR '':'' then CHR ''_'' else c) (sc_service row)"
    by (simp add: str_replace_def)
  then show ?case by (simp add: Cons.IH)
qed

text \<open>
  C4, as the code has it. \<open>export_metrics\<close> of the evaluator writes one line for each
  metric whose value is a number, \<open>nan\<close> included: the only test is
  \<open>isinstance(value, (int, float))\<close>, which \<open>nan\<close> passes. Only a value that is not
  a number (the string under \<open>evaluated_at\<close>) gets no line, so the number of lines
  is the number of numeric values, and the line of a \<open>nan\<close> ends in \<open>nan\<close>.
\<close>

theorem export_writes_every_number:
  "(\<forall>model_id result metric v.
      (model_id, result) \<in> set all_results \<and> (metric, PNum v) \<in> set result \<longrightarrow>
        metric_line str_real model_id metric v \<in> set (export_results str_real all_results [])) \<and>
   length (export_results str_real all_results []) =
     (\<Sum>(model_id, result) \<leftarrow> all_results.
        length (filter (\<lambda>(metric, v). case v of PNum x \<Rightarrow> True | PStr s \<Rightarrow> False) result)) \<and>
   metric_line str_real model_id metric NaN =
     str_replace CHR ''-'' CHR ''_'' (''model_'' @ metric) @
       ''{model_id=\"'' @ model_id @ ''\"} nan''"
proof (intro conjI allI impI)
  fix model_id result metric v
  assume "(model_id, result) \<in> set all_results \<and> (metric, PNum v) \<in> set result"
  then show "metric_line str_real model_id metric v \<in> set (export_results str_real all_results [])"
    using export_results_mem by blast
next
  show "length (export_results str_real all_results []) =
     (\<Sum>(model_id, result) \<leftarrow> all_results.
        length (filter (\<lambda>(metric, v). case v of PNum x \<Rightarrow> True | PStr s \<Rightarrow> False) result))"
    by (rule export_results_length)
next
  show "metric_line str_real model_id metric NaN =
     str_replace CHR ''-'' CHR ''_'' (''model_'' @ metric) @
       ''{model_id=\"'' @ model_id @ ''\"} nan''"
    by (simp add: metric_line_def)
qed

theorem export_writes_every_number_witness:
  "''model_r2{model_id=\"m\"} nan'' \<in>
     set (export_results (\<lambda>x. ''0.5'')
            [(''m'', [(''r2'', PNum NaN), (''evaluated_at'', PStr ''t'')])] []) \<and>
   length (export_results (\<lambda>x. ''0.5'')
            [(''m'', [(''r2'', PNum NaN), (''evaluated_at'', PStr ''t'')])] []) = 1"
proof -
  let ?rs = "[(''m'', [(''r2'', PNum NaN), (''evaluated_at'', PStr ''t'')])]"
  have h: "(''m'', [(''r2'', PNum NaN), (''evaluated_at'', PStr ''t'')]) \<in> set ?rs \<and>
           (''r2'', PNum NaN) \<in> set [(''r2'', PNum NaN), (''evaluated_at'', PStr ''t'')]"
    by simp
  note inst = export_writes_every_number
    [where all_results = ?rs and str_real = "\<lambda>x. ''0.5''" and model_id = "''m''"
       and metric = "''r2''"]
  from inst have "metric_line (\<lambda>x. ''0.5'') ''m'' ''r2'' NaN \<in> set (export_results (\<lambda>x. ''0.5'') ?rs [])"
    using h by blast
  moreover from inst have "length (export_results (\<lambda>x. ''0.5'') ?rs []) = 1"
    by simp
  ultimately show ?thesis
    by (simp add: metric_line_def str_replace_def)
qed

text \<open>
  A metric whose value is \<open>nan\<close> is written to the file, as a line that carries
  \<open>nan\<close>.
\<close>

theorem nan_line_written_counterexample:
  "export_metrics (\<lambda>x. ''0.5'')
     \<lparr> ev_results = [(''m'', [(''r2'', PNum NaN), (''evaluated_at'', PStr ''t'')])],
       ev_alert_threshold = Fin (8 / 10), ev_slack_webhook_url = None, ev_sent = [] \<rparr> =
   ''model_r2{model_id=\"m\"} nan''"
  by (simp add: export_metrics_def metric_line_def str_replace_def)

text \<open>
  C5, as the code has it. The evaluator's exporter writes, for each numeric metric,
  the name \<open>model_\<close> followed by the metric key, in which every \<open>-\<close> is replaced by
  \<open>_\<close> and no other character is changed, then the label \<open>model_id\<close> with the model
  id verbatim, then the value; the key \<open>performance-avg\<close> of model \<open>BTC-USD\<close> renders
  as \<open>model_performance_avg{model_id="BTC-USD"} <value>\<close>. The cost exporter writes
  \<open>aws_cost_\<close> followed by the key unchanged, and in the \<open>service\<close> label value it
  replaces each \<open>-\<close> and each \<open>:\<close> by \<open>_\<close>.
\<close>

theorem exporter_replaces_hyphens_only:
  "export_results str_real all_results [] =
     concat (map (\<lambda>(model_id, result). List.map_filter
       (\<lambda>(metric, v). case v of
          PNum x \<Rightarrow>
            Some (map (\<lambda>c. if c = CHR ''-'' then CHR ''_'' else c) (''model_'' @ metric) @
                  ''{model_id=\"'' @ model_id @ ''\"} '' @ str_float str_real x)
        | PStr s \<Rightarrow> None) result) all_results) \<and>
   export_metrics str_real
     (self\<lparr> ev_results := [(''BTC-USD'', [(''performance-avg'', PNum v)])] \<rparr>) =
     ''model_performance_avg{model_id=\"BTC-USD\"} '' @ str_float str_real v \<and>
   export_daily str_real daily_stats [] =
     map (\<lambda>(metric, v). ''aws_cost_'' @ metric @ '' '' @ str_float str_real v) daily_stats \<and>
   export_services str_real service_costs [] =
     concat (map (\<lambda>row.
       [''aws_cost_service_total{service=\"'' @
          map (\<lambda>c. if c = CHR ''-'' \<or> c = CHR '':'' then CHR ''_'' else c) (sc_service row) @
          ''\"} '' @ str_float str_real (total_cost row),
        ''aws_cost_service_percentage{service=\"'' @
          map (\<lambda>c. if c = CHR ''-'' \<or> c = CHR '':'' then CHR ''_'' else c) (sc_service row) @
          ''\"} '' @ str_float str_real (cost_percentage row)]) service_costs)"
proof (intro conjI)
  show "export_results str_real all_results [] =
     concat (map (\<lambda>(model_id, result). List.map_filter
       (\<lambda>(metric, v). case v of
          PNum x \<Rightarrow>
            Some (map (\<lambda>c. if c = CHR ''-'' then CHR ''_'' else c) (''model_'' @ metric) @
                  ''{model_id=\"'' @ model_id @ ''\"} '' @ str_float str_real x)
        | PStr s \<Rightarrow> None) result) all_results)"
  proof -
    have line: "\<And>model_id metric x. metric_line str_real model_id metric x =
        map (\<lambda>c. if c = CHR ''-'' then CHR ''_'' else c) (''model_'' @ metric) @
          ''{model_id=\"'' @ model_id @ ''\"} '' @ str_float str_real x"
      by (simp add: metric_line_def str_replace_def)
    have e: "export_results str_real all_results [] =
        concat (map (\<lambda>(model_id, result). List.map_filter
          (\<lambda>(metric, v). case v of
             PNum x \<Rightarrow> Some (metric_line str_real model_id metric x)
           | PStr s \<Rightarrow> None) result) all_results)"
      by (simp add: export_results_eq)
    show ?thesis
      unfolding e line ..
  qed
next
  show "export_metrics str_real
     (self\<lparr> ev_results := [(''BTC-USD'', [(''performance-avg'', PNum v)])] \<rparr>) =
     ''model_performance_avg{model_id=\"BTC-USD\"} '' @ str_float str_real v"
    by (simp add: export_metrics_def metric_line_def str_replace_def)
next
  show "export_daily str_real daily_stats [] =
     map (\<lambda>(metric, v). ''aws_cost_'' @ metric @ '' '' @ str_float str_real v) daily_stats"
    by (simp add: export_daily_eq)
next
  show "export_services str_real service_costs [] =
     concat (map (\<lambda>row.
       [''aws_cost_service_total{service=\"'' @
          map (\<lambda>c. if c = CHR ''-'' \<or> c = CHR '':'' then CHR ''_'' else c) (sc_service row) @
          ''\"} '' @ str_float str_real (total_cost row),
        ''aws_cost_service_percentage{service=\"'' @
          map (\<lambda>c. if c = CHR ''-'' \<or> c = CHR '':'' then CHR ''_'' else c) (sc_service row) @
          ''\"} '' @ str_float str_real (cost_percentage row)]) service_costs)"
    using export_services_eq [of str_real service_costs "[]"] by simp
qed

theorem exporter_replaces_hyphens_only_witness:
  "export_metrics (\<lambda>x. ''0.5'')
     \<lparr> ev_results = [(''BTC-USD'', [(''performance-avg'', PNum (Fin (1 / 2)))])],
       ev_alert_threshold = Fin (8 / 10), ev_slack_webhook_url = None, ev_sent = [] \<rparr> =
     ''model_performance_avg{model_id=\"BTC-USD\"} 0.5'' \<and>
   export_services (\<lambda>x. ''0.5'')
     [\<lparr> sc_service = ''Amazon-EC2:Compute'', total_cost = Fin (1 / 2), avg_cost = Fin (1 / 2),
        std_cost = NaN, cost_percentage = Fin (1 / 2) \<rparr>] [] =
     [''aws_cost_service_total{service=\"Amazon_EC2_Compute\"} 0.5'',
      ''aws_cost_service_percentage{service=\"Amazon_EC2_Compute\"} 0.5'']"
  using exporter_replaces_hyphens_only
    [where str_real = "\<lambda>x. ''0.5''" and v = "Fin (1 / 2)"
       and self = "\<lparr> ev_results = [], ev_alert_threshold = Fin (8 / 10),
                      ev_slack_webhook_url = None, ev_sent = [] \<rparr>"
       and service_costs = "[\<lparr> sc_service = ''Amazon-EC2:Compute'', total_cost = Fin (1 / 2),
          avg_cost = Fin (1 / 2), std_cost = NaN, cost_percentage = Fin (1 / 2) \<rparr>]"]
  by simp

text \<open>
  A character other than \<open>-\<close> outside \<open>[A-Za-z0-9_]\<close> stays in the name: the key
  \<open>performance:avg\<close> keeps its colon.
\<close>

theorem colon_kept_in_name_counterexample:
  "export_metrics (\<lambda>x. ''0.5'')
     \<lparr> ev_results = [(''BTC-USD'', [(''performance:avg'', PNum (Fin (1 / 2)))])],
       ev_alert_threshold = Fin (8 / 10), ev_slack_webhook_url = None, ev_sent = [] \<rparr> =
   ''model_performance:avg{model_id=\"BTC-USD\"} 0.5''"
  by (simp add: export_metrics_def metric_line_def str_replace_def)

section \<open>Cost anomalies\<close>










section \<open>Integers in the report and in the exposition file\<close>

text \<open>
  A column of \<open>rmse\<close> values that are all \<open>int\<close> has an \<open>int\<close> minimum, which the
  statistics print unformatted; a float minimum is formatted under \<open>.2%\<close>.
\<close>

lemma best_rmse_of_ints_unformatted:
  "column_min [JInt 3, JInt 5] = Inr (JInt 3) \<and> stat_text fm (JInt 3) = ''3'' \<and>
   column_min [JInt 3, JFloat (Fin 5)] = Inr (JFloat (Fin 3)) \<and>
   stat_text fm (JFloat (Fin 3)) = fmt_pct2 fm 3"
  by (simp add: column_min_def column_dtype_def pd_min_def the_num_def num_of_def
      str_int_def str_nat.simps)

text \<open>
  The default \<open>0\<close> of a missing metric is an \<open>int\<close>: alone in its column it is written
  \<open>0\<close>, and beside a float it is written as the float \<open>0.0\<close> is.
\<close>

lemma default_zero_in_exposition:
  "export_rows fm
     (data_frame
        [\<lparr> row_model_id = ''A'', row_directional_accuracy = JInt 0,
           row_interval_accuracy = JInt 0, row_rmse = JFloat PInf,
           row_profit_correlation = JInt 0, row_alerts = 0 \<rparr>]) [] =
     [''model_performance{model_id=\"A\"}_directional_accuracy 0'',
      ''model_performance{model_id=\"A\"}_interval_accuracy 0'',
      ''model_performance{model_id=\"A\"}_rmse inf'',
      ''model_performance{model_id=\"A\"}_profit_correlation 0'',
      ''model_performance{model_id=\"A\"}_alerts 0''] \<and>
   map row_directional_accuracy
     (data_frame
        [\<lparr> row_model_id = ''A'', row_directional_accuracy = JInt 0,
           row_interval_accuracy = JInt 0, row_rmse = JFloat PInf,
           row_profit_correlation = JInt 0, row_alerts = 0 \<rparr>,
         \<lparr> row_model_id = ''B'', row_directional_accuracy = JFloat (Fin (1 / 2)),
           row_interval_accuracy = JInt 0, row_rmse = JFloat PInf,
           row_profit_correlation = JInt 0, row_alerts = 0 \<rparr>]) =
     [JFloat (Fin 0), JFloat (Fin (1 / 2))]"
  by (simp add: data_frame_def column_dtype_def str_int_def str_nat.simps)

section \<open>The ranking of the report\<close>

lemma ranks_before_irrefl: "\<not> ranks_before a a"
  by (cases a) simp_all

lemma ranks_before_asym: "ranks_before a b \<Longrightarrow> \<not> ranks_before b a"
  by (cases a; cases b) simp_all

lemma ranks_before_negtrans:
  "\<not> ranks_before b a \<Longrightarrow> \<not> ranks_before c b \<Longrightarrow> \<not> ranks_before c a"
  by (cases a; cases b; cases c) simp_all

lemma set_insert_desc: "set (insert_desc key x ys) = insert x (set ys)"
  by (induction ys) auto

lemma sorted_insert_desc:
  assumes "sorted_wrt (\<lambda>a b. \<not> ranks_before (key b) (key a)) ys"
  shows "sorted_wrt (\<lambda>a b. \<not> ranks_before (key b) (key a)) (insert_desc key x ys)"
using assms proof (induction ys)
  case Nil
  show ?case by simp
next
  case (Cons y ys)
  show ?case
  proof (cases "ranks_before (key y) (key x)")
    case True
    then have "\<not> ranks_before (key x) (key y)"
      by (rule ranks_before_asym)
    with True Cons show ?thesis
      by (auto simp: set_insert_desc)
  next
    case False
    have "\<And>z. z \<in> set ys \<Longrightarrow> \<not> ranks_before (key z) (key x)"
    proof -
      fix z assume "z \<in> set ys"
      with Cons.prems have "\<not> ranks_before (key z) (key y)" by simp
      with False show "\<not> ranks_before (key z) (key x)"
        by (rule ranks_before_negtrans)
    qed
    with False Cons.prems show ?thesis by simp
  qed
qed

lemma sorted_sort_desc:
  "sorted_wrt (\<lambda>a b. \<not> ranks_before (key b) (key a)) (sort_desc key xs)"
  unfolding sort_desc_def by (induction xs) (simp_all add: sorted_insert_desc)

lemma filter_insert_desc:
  "filter (\<lambda>r. key r = v) (insert_desc key x ys) =
     (if key x = v then x # filter (\<lambda>r. key r = v) ys else filter (\<lambda>r. key r = v) ys)"
proof (induction ys)
  case Nil
  show ?case by simp
next
  case (Cons y ys)
  show ?case
  proof (cases "ranks_before (key y) (key x)")
    case True
    then have "key y \<noteq> key x"
      using ranks_before_irrefl by metis
    with True Cons.IH show ?thesis by auto
  next
    case False
    then show ?thesis by simp
  qed
qed

lemma filter_sort_desc:
  "filter (\<lambda>r. key r = v) (sort_desc key xs) = filter (\<lambda>r. key r = v) xs"
  unfolding sort_desc_def by (induction xs) (simp_all add: filter_insert_desc)

lemma length_sort_desc: "length (sort_desc key xs) = length xs"
proof -
  have "\<And>x ys. length (insert_desc key x ys) = Suc (length ys)"
  proof -
    fix x ys show "length (insert_desc key x ys) = Suc (length ys)"
      by (induction ys) simp_all
  qed
  then show ?thesis
    unfolding sort_desc_def by (induction xs) simp_all
qed

lemma mset_insert_desc: "mset (insert_desc key x ys) = add_mset x (mset ys)"
  by (induction ys) simp_all

lemma mset_sort_desc: "mset (sort_desc key xs) = mset xs"
  unfolding sort_desc_def by (induction xs) (simp_all add: mset_insert_desc)

lemma the_num_cell: "the_num (cell dt v) = the_num v"
  by (cases dt; cases v) (simp_all add: the_num_def num_of_def)

lemma data_frame_ids: "map row_model_id (data_frame summary) = map row_model_id summary"
  by (simp add: data_frame_def)

lemma data_frame_keys:
  "map (\<lambda>r. the_num (row_directional_accuracy r)) (data_frame summary) =
     map (\<lambda>r. the_num (row_directional_accuracy r)) summary"
  by (simp add: data_frame_def the_num_cell)

lemma length_data_frame: "length (data_frame summary) = length summary"
  by (simp add: data_frame_def)

text \<open>
  C6, as the code has it. The report ranks with \<open>nlargest(3, 'directional_accuracy')\<close>.
  On a non-empty summary whose column holds no string, the rows of the frame can be
  arranged as the listed rows followed by the rows left out, so that: three rows are
  listed (all, when there are fewer); the arrangement is a permutation of the frame;
  it is in descending order of directional accuracy, so no row left out has a larger
  value than a listed one; and rows with equal values stand in the order they have in
  the frame. The frame has the entities and the accuracies of the summary in the
  order of the summary, which is the order of the results, not the order of the ids.
  The metric and \<open>N = 3\<close> are fixed.
\<close>

theorem top_models_descending_stable:
  assumes ne: "summary \<noteq> []"
    and num: "column_dtype (map row_directional_accuracy summary) \<noteq> Object"
  shows "\<exists>tops rest.
           top_models summary = Inr tops \<and>
           length tops = min 3 (length summary) \<and>
           mset (tops @ rest) = mset (data_frame summary) \<and>
           sorted_wrt (\<lambda>a b. \<not> ranks_before (the_num (row_directional_accuracy b))
                                            (the_num (row_directional_accuracy a)))
             (tops @ rest) \<and>
           (\<forall>v. filter (\<lambda>r. the_num (row_directional_accuracy r) = v) (tops @ rest) =
                filter (\<lambda>r. the_num (row_directional_accuracy r) = v) (data_frame summary)) \<and>
           map row_model_id (data_frame summary) = map row_model_id summary \<and>
           map (\<lambda>r. the_num (row_directional_accuracy r)) (data_frame summary) =
             map (\<lambda>r. the_num (row_directional_accuracy r)) summary"
proof -
  let ?key = "\<lambda>r. the_num (row_directional_accuracy r)"
  let ?all = "sort_desc ?key (data_frame summary)"
  let ?tops = "take 3 ?all"
  let ?rest = "drop 3 ?all"
  have whole: "?tops @ ?rest = ?all"
    by (rule append_take_drop_id)
  have run: "top_models summary = Inr ?tops"
    using ne num by (simp add: top_models_def nlargest_def)
  have len: "length ?tops = min 3 (length summary)"
    by (simp add: length_sort_desc length_data_frame)
  have perm: "mset (?tops @ ?rest) = mset (data_frame summary)"
    unfolding whole by (rule mset_sort_desc)
  have srt: "sorted_wrt (\<lambda>a b. \<not> ranks_before (?key b) (?key a)) (?tops @ ?rest)"
    unfolding whole by (rule sorted_sort_desc)
  have stable: "\<forall>v. filter (\<lambda>r. ?key r = v) (?tops @ ?rest) =
      filter (\<lambda>r. ?key r = v) (data_frame summary)"
    unfolding whole by (simp add: filter_sort_desc)
  from run len perm srt stable data_frame_ids [of summary] data_frame_keys [of summary]
  show ?thesis
    by blast
qed

theorem top_models_descending_stable_witness:
  "column_dtype (map row_directional_accuracy
     [\<lparr> row_model_id = ''D'', row_directional_accuracy = JFloat (Fin (50 / 100)),
        row_interval_accuracy = JInt 0, row_rmse = JFloat PInf,
        row_profit_correlation = JInt 0, row_alerts = 0 \<rparr>,
      \<lparr> row_model_id = ''A'', row_directional_accuracy = JFloat (Fin (91 / 100)),
        row_interval_accuracy = JInt 0, row_rmse = JFloat PInf,
        row_profit_correlation = JInt 0, row_alerts = 0 \<rparr>,
      \<lparr> row_model_id = ''C'', row_directional_accuracy = JFloat (Fin (85 / 100)),
        row_interval_accuracy = JInt 0, row_rmse = JFloat PInf,
        row_profit_correlation = JInt 0, row_alerts = 0 \<rparr>,
      \<lparr> row_model_id = ''B'', row_directional_accuracy = JFloat (Fin (91 / 100)),
        row_interval_accuracy = JInt 0, row_rmse = JFloat PInf,
        row_profit_correlation = JInt 0, row_alerts = 0 \<rparr>]) \<noteq> Object \<and>
   (\<exists>tops rest.
      top_models
        [\<lparr> row_model_id = ''D'', row_directional_accuracy = JFloat (Fin (50 / 100)),
           row_interval_accuracy = JInt 0, row_rmse = JFloat PInf,
           row_profit_correlation = JInt 0, row_alerts = 0 \<rparr>,
         \<lparr> row_model_id = ''A'', row_directional_accuracy = JFloat (Fin (91 / 100)),
           row_interval_accuracy = JInt 0, row_rmse = JFloat PInf,
           row_profit_correlation = JInt 0, row_alerts = 0 \<rparr>,
         \<lparr> row_model_id = ''C'', row_directional_accuracy = JFloat (Fin (85 / 100)),
           row_interval_accuracy = JInt 0, row_rmse = JFloat PInf,
           row_profit_correlation = JInt 0, row_alerts = 0 \<rparr>,
         \<lparr> row_model_id = ''B'', row_directional_accuracy = JFloat (Fin (91 / 100)),
           row_interval_accuracy = JInt 0, row_rmse = JFloat PInf,
           row_profit_correlation = JInt 0, row_alerts = 0 \<rparr>] = Inr tops \<and>
      map row_model_id tops = [''A'', ''B'', ''C''] \<and>
      map row_model_id rest = [''D''] \<and>
      mset (tops @ rest) =
        mset (data_frame
          [\<lparr> row_model_id = ''D'', row_directional_accuracy = JFloat (Fin (50 / 100)),
             row_interval_accuracy = JInt 0, row_rmse = JFloat PInf,
             row_profit_correlation = JInt 0, row_alerts = 0 \<rparr>,
           \<lparr> row_model_id = ''A'', row_directional_accuracy = JFloat (Fin (91 / 100)),
             row_interval_accuracy = JInt 0, row_rmse = JFloat PInf,
             row_profit_correlation = JInt 0, row_alerts = 0 \<rparr>,
           \<lparr> row_model_id = ''C'', row_directional_accuracy = JFloat (Fin (85 / 100)),
             row_interval_accuracy = JInt 0, row_rmse = JFloat PInf,
             row_profit_correlation = JInt 0, row_alerts = 0 \<rparr>,
           \<lparr> row_model_id = ''B'', row_directional_accuracy = JFloat (Fin (91 / 100)),
             row_interval_accuracy = JInt 0, row_rmse = JFloat PInf,
             row_profit_correlation = JInt 0, row_alerts = 0 \<rparr>]))"
proof -
  let ?summary = "[\<lparr> row_model_id = ''D'', row_directional_accuracy = JFloat (Fin (50 / 100)),
        row_interval_accuracy = JInt 0, row_rmse = JFloat PInf,
        row_profit_correlation = JInt 0, row_alerts = 0 \<rparr>,
      \<lparr> row_model_id = ''A'', row_directional_accuracy = JFloat (Fin (91 / 100)),
        row_interval_accuracy = JInt 0, row_rmse = JFloat PInf,
        row_profit_correlation = JInt 0, row_alerts = 0 \<rparr>,
      \<lparr> row_model_id = ''C'', row_directional_accuracy = JFloat (Fin (85 / 100)),
        row_interval_accuracy = JInt 0, row_rmse = JFloat PInf,
        row_profit_correlation = JInt 0, row_alerts = 0 \<rparr>,
      \<lparr> row_model_id = ''B'', row_directional_accuracy = JFloat (Fin (91 / 100)),
        row_interval_accuracy = JInt 0, row_rmse = JFloat PInf,
        row_profit_correlation = JInt 0, row_alerts = 0 \<rparr>]"
  let ?A = "\<lparr> row_model_id = ''A'', row_directional_accuracy = JFloat (Fin (91 / 100)),
      row_interval_accuracy = JInt 0, row_rmse = JFloat PInf,
      row_profit_correlation = JInt 0, row_alerts = 0 \<rparr>"
  let ?B = "\<lparr> row_model_id = ''B'', row_directional_accuracy = JFloat (Fin (91 / 100)),
      row_interval_accuracy = JInt 0, row_rmse = JFloat PInf,
      row_profit_correlation = JInt 0, row_alerts = 0 \<rparr>"
  let ?C = "\<lparr> row_model_id = ''C'', row_directional_accuracy = JFloat (Fin (85 / 100)),
      row_interval_accuracy = JInt 0, row_rmse = JFloat PInf,
      row_profit_correlation = JInt 0, row_alerts = 0 \<rparr>"
  let ?D = "\<lparr> row_model_id = ''D'', row_directional_accuracy = JFloat (Fin (50 / 100)),
      row_interval_accuracy = JInt 0, row_rmse = JFloat PInf,
      row_profit_correlation = JInt 0, row_alerts = 0 \<rparr>"
  have ne: "?summary \<noteq> []" by simp
  have num: "column_dtype (map row_directional_accuracy ?summary) \<noteq> Object"
    by (simp add: column_dtype_def)
  have frame: "data_frame ?summary = ?summary"
    by (simp add: data_frame_def column_dtype_def)
  have run: "top_models ?summary = Inr [?A, ?B, ?C]"
    unfolding top_models_def frame
    by (simp add: column_dtype_def nlargest_def sort_desc_def the_num_def num_of_def)
  from top_models_descending_stable [OF ne num] obtain tops rest where
    used: "top_models ?summary = Inr tops"
    and perm: "mset (tops @ rest) = mset (data_frame ?summary)"
    by blast
  from used run have tops: "tops = [?A, ?B, ?C]"
    by simp
  from perm have "mset rest = {#?D#}"
    unfolding frame tops by simp
  then have rest: "rest = [?D]"
    by simp
  show ?thesis
  proof (intro conjI exI)
    show "column_dtype (map row_directional_accuracy ?summary) \<noteq> Object"
      by (rule num)
    show "top_models ?summary = Inr tops"
      by (rule used)
    show "map row_model_id tops = [''A'', ''B'', ''C'']"
      unfolding tops by simp
    show "map row_model_id rest = [''D'']"
      unfolding rest by simp
    show "mset (tops @ rest) = mset (data_frame ?summary)"
      by (rule perm)
  qed
qed

text \<open>
  With the results in the order B, A, C and equal accuracy for A and B, the report
  lists B before A: the tie is not broken by the entity id.
\<close>

theorem tie_keeps_input_order_counterexample:
  "(case check_performance (checker_init NaN None)
      \<lparr> timestamp = ''t'', results =
         [(''B'', [(''directional_accuracy'', JFloat (Fin (91 / 100)))]),
          (''A'', [(''directional_accuracy'', JFloat (Fin (91 / 100)))]),
          (''C'', [(''directional_accuracy'', JFloat (Fin (85 / 100)))])] \<rparr> of
      Inl e \<Rightarrow> []
    | Inr (alerts, summary) \<Rightarrow>
        (case top_models summary of Inl e \<Rightarrow> [] | Inr tops \<Rightarrow> map row_model_id tops)) =
   [''B'', ''A'', ''C'']"
  by (simp add: check_performance_def checker_init_def dict_get_def top_models_def
      data_frame_def column_dtype_def nlargest_def sort_desc_def the_num_def num_of_def)

section \<open>Determinism of the checker\<close>

lemma map_of_strip_time:
  "k \<noteq> ''evaluated_at'' \<Longrightarrow> map_of (strip_time ms) k = map_of ms k"
  unfolding strip_time_def by (induction ms) auto

lemma check_thresholds_cong:
  assumes "\<And>metric. metric \<in> fst ` set rules \<Longrightarrow> map_of ms1 metric = map_of ms2 metric"
  shows "check_thresholds ms1 rules acc = check_thresholds ms2 rules acc"
using assms proof (induction rules arbitrary: acc)
  case Nil
  show ?case by simp
next
  case (Cons rule rules)
  obtain metric threshold where rule: "rule = (metric, threshold)"
    by (cases rule)
  from Cons.prems rule have here: "map_of ms1 metric = map_of ms2 metric"
    by simp
  from Cons.prems have rest:
    "\<And>acc. check_thresholds ms1 rules acc = check_thresholds ms2 rules acc"
    by (intro Cons.IH) simp
  show ?case
    unfolding rule check_thresholds.simps here rest ..
qed

lemma check_thresholds_strip_time:
  assumes notrule: "''evaluated_at'' \<notin> fst ` set rules"
    and same: "strip_time ms1 = strip_time ms2"
  shows "check_thresholds ms1 rules acc = check_thresholds ms2 rules acc"
proof (rule check_thresholds_cong)
  fix metric assume mem: "metric \<in> fst ` set rules"
  have ne: "metric \<noteq> ''evaluated_at''"
  proof
    assume "metric = ''evaluated_at''"
    with mem have "''evaluated_at'' \<in> fst ` set rules"
      by simp
    with notrule show False ..
  qed
  have "map_of ms1 metric = map_of (strip_time ms1) metric"
    by (simp add: map_of_strip_time [OF ne])
  also have "\<dots> = map_of ms2 metric"
    unfolding same by (rule map_of_strip_time [OF ne])
  finally show "map_of ms1 metric = map_of ms2 metric" .
qed

lemma dict_get_strip_time:
  assumes "k \<noteq> ''evaluated_at''" and "strip_time ms1 = strip_time ms2"
  shows "dict_get ms1 k d = dict_get ms2 k d"
proof -
  have "map_of ms1 k = map_of (strip_time ms1) k"
    by (simp add: map_of_strip_time [OF assms(1)])
  also have "\<dots> = map_of ms2 k"
    unfolding assms(2) by (rule map_of_strip_time [OF assms(1)])
  finally show ?thesis
    by (simp add: dict_get_def)
qed

lemma check_models_strip_time:
  assumes rules: "thresholds self1 = thresholds self2"
    and notrule: "''evaluated_at'' \<notin> fst ` set (thresholds self1)"
  shows "map (\<lambda>(model_id, ms). (model_id, strip_time ms)) rs1 =
           map (\<lambda>(model_id, ms). (model_id, strip_time ms)) rs2 \<Longrightarrow>
         map without_time alerts1 = map without_time alerts2 \<Longrightarrow>
         same_outcome (check_models self1 rs1 alerts1 summary)
                      (check_models self2 rs2 alerts2 summary)"
proof (induction rs1 arbitrary: rs2 alerts1 alerts2 summary)
  case Nil
  then show ?case by (simp add: same_outcome_def)
next
  case (Cons sample1 rs1)
  obtain model_id ms1 where sample1: "sample1 = (model_id, ms1)"
    by (cases sample1)
  from Cons.prems(1) obtain sample2 rest2 where rs2: "rs2 = sample2 # rest2"
    by (cases rs2) simp_all
  obtain model_id2 ms2 where sample2: "sample2 = (model_id2, ms2)"
    by (cases sample2)
  from Cons.prems(1) sample1 sample2 rs2 have id: "model_id2 = model_id"
    and ms: "strip_time ms1 = strip_time ms2"
    and rest: "map (\<lambda>(model_id, ms). (model_id, strip_time ms)) rs1 =
               map (\<lambda>(model_id, ms). (model_id, strip_time ms)) rest2"
    by simp_all
  have inner: "check_thresholds ms1 (thresholds self1) [] =
      check_thresholds ms2 (thresholds self2) []"
    unfolding rules [symmetric] by (rule check_thresholds_strip_time [OF notrule ms])
  have d1: "dict_get ms1 ''directional_accuracy'' (JInt 0) =
      dict_get ms2 ''directional_accuracy'' (JInt 0)"
    by (rule dict_get_strip_time [OF _ ms]) simp
  have d2: "dict_get ms1 ''interval_accuracy'' (JInt 0) =
      dict_get ms2 ''interval_accuracy'' (JInt 0)"
    by (rule dict_get_strip_time [OF _ ms]) simp
  have d3: "dict_get ms1 ''rmse'' (JFloat PInf) = dict_get ms2 ''rmse'' (JFloat PInf)"
    by (rule dict_get_strip_time [OF _ ms]) simp
  have d4: "dict_get ms1 ''profit_correlation'' (JInt 0) =
      dict_get ms2 ''profit_correlation'' (JInt 0)"
    by (rule dict_get_strip_time [OF _ ms]) simp
  show ?case
  proof (cases "check_thresholds ms2 (thresholds self2) []")
    case (Inl e)
    with inner show ?thesis
      unfolding sample1 rs2 sample2 by (simp add: same_outcome_def)
  next
    case (Inr model_alerts)
    let ?stamp = "\<lambda>alerts ms.
      if model_alerts \<noteq> [] then
        alerts @ [\<lparr> alert_model_id = model_id, alert_alerts = model_alerts,
                    alert_evaluation_time = map_of ms ''evaluated_at'' \<rparr>]
      else alerts"
    have one: "without_time \<lparr> alert_model_id = model_id, alert_alerts = model_alerts,
                    alert_evaluation_time = map_of ms1 ''evaluated_at'' \<rparr> =
        without_time \<lparr> alert_model_id = model_id, alert_alerts = model_alerts,
                    alert_evaluation_time = map_of ms2 ''evaluated_at'' \<rparr>"
      by (simp add: without_time_def)
    have al: "map without_time (?stamp alerts1 ms1) = map without_time (?stamp alerts2 ms2)"
      using Cons.prems(2) one by simp
    from Cons.IH [OF rest al]
    show ?thesis
      unfolding sample1 rs2 sample2 id check_models.simps inner Inr d1 d2 d3 d4
      by simp
  qed
qed

lemma alerts_text_without_time:
  "map without_time alerts1 = map without_time alerts2 \<Longrightarrow>
     alerts_text fm alerts1 acc = alerts_text fm alerts2 acc"
proof (induction alerts1 arbitrary: alerts2 acc)
  case Nil
  then show ?case by simp
next
  case (Cons a1 alerts1)
  from Cons.prems obtain a2 rest2 where alerts2: "alerts2 = a2 # rest2"
    by (cases alerts2) simp_all
  from Cons.prems alerts2 have head: "without_time a1 = without_time a2"
    and rest: "map without_time alerts1 = map without_time rest2"
    by simp_all
  from head have "alert_model_id (without_time a1) = alert_model_id (without_time a2)"
    and "alert_alerts (without_time a1) = alert_alerts (without_time a2)"
    by simp_all
  then have same: "alert_model_id a1 = alert_model_id a2" "alert_alerts a1 = alert_alerts a2"
    by (simp_all add: without_time_def)
  show ?case
    unfolding alerts2 alerts_text.simps same
    by (simp add: Cons.IH [OF rest] split: sum.splits)
qed

lemma format_alert_message_without_time:
  assumes "map without_time alerts1 = map without_time alerts2"
  shows "format_alert_message self1 fm alerts1 summary =
         format_alert_message self2 fm alerts2 summary"
proof -
  from assms have "length (map without_time alerts1) = length (map without_time alerts2)"
    by simp
  then have empty: "(alerts1 \<noteq> []) = (alerts2 \<noteq> [])"
    by auto
  show ?thesis
    unfolding format_alert_message_def empty
      alerts_text_without_time [OF assms] ..
qed

text \<open>
  C10. Two runs of the checker whose rule tables are the same and whose inputs hold
  the same metric samples, whatever the timestamps of the two inputs (\<open>timestamp\<close>,
  \<open>evaluated_at\<close>) and whatever the environment gave the two checkers
  (\<open>ALERT_THRESHOLD\<close>, \<open>SLACK_WEBHOOK_URL\<close>): either \<open>check_performance\<close> raises the
  same exception in both, or both return; then the two summaries are the same, the
  alerts are the same except for their \<open>evaluation_time\<close>, and
  \<open>format_alert_message\<close> and \<open>export_metrics\<close> give the same message blocks and
  the same exposition text in the two runs. No output reads a clock. The timestamp
  key is supposed not to be a metric of a rule, as in the table of the code.
\<close>

theorem checker_outputs_deterministic:
  assumes rules: "thresholds self1 = thresholds self2"
    and notrule: "''evaluated_at'' \<notin> fst ` set (thresholds self1)"
    and same: "map (\<lambda>(model_id, ms). (model_id, strip_time ms)) (results res1) =
               map (\<lambda>(model_id, ms). (model_id, strip_time ms)) (results res2)"
  shows "(case check_performance self1 res1 of
            Inl e \<Rightarrow> check_performance self2 res2 = Inl e
          | Inr (alerts1, summary) \<Rightarrow>
              (\<exists>alerts2.
                 check_performance self2 res2 = Inr (alerts2, summary) \<and>
                 map without_time alerts1 = map without_time alerts2 \<and>
                 format_alert_message self1 fm alerts1 summary =
                   format_alert_message self2 fm alerts2 summary \<and>
                 checker_export_metrics self1 fm summary =
                   checker_export_metrics self2 fm summary))"
proof -
  have agree: "same_outcome (check_performance self1 res1) (check_performance self2 res2)"
    unfolding check_performance_def
    by (rule check_models_strip_time [OF rules notrule same]) simp
  show ?thesis
  proof (cases "check_performance self1 res1")
    case (Inl e)
    with agree show ?thesis
      by (simp add: same_outcome_def split: sum.splits)
  next
    case (Inr out1)
    obtain alerts1 summary where out1: "out1 = (alerts1, summary)"
      by (cases out1)
    from agree Inr out1 obtain alerts2 where
      run2: "check_performance self2 res2 = Inr (alerts2, summary)"
      and al: "map without_time alerts1 = map without_time alerts2"
      by (cases "check_performance self2 res2") (auto simp: same_outcome_def)
    have blocks: "format_alert_message self1 fm alerts1 summary =
        format_alert_message self2 fm alerts2 summary"
      by (rule format_alert_message_without_time [OF al])
    have expo: "checker_export_metrics self1 fm summary =
        checker_export_metrics self2 fm summary"
      unfolding checker_export_metrics_def ..
    from run2 al blocks expo show ?thesis
      unfolding Inr out1 by simp
  qed
qed

theorem checker_outputs_deterministic_witness:
  "thresholds (checker_init (Fin (8 / 10)) None) = thresholds (checker_init NaN (Some ''https://hooks.example/T0'')) \<and>
   ''evaluated_at'' \<notin> fst ` set (thresholds (checker_init (Fin (8 / 10)) None)) \<and>
   map (\<lambda>(model_id, ms). (model_id, strip_time ms)) (results 
        \<lparr> timestamp = ''2024-01-01T00:00:00'', results =
        [(''A'', [(''rmse'', JFloat (Fin (3 / 100))), (''evaluated_at'', JStr ''2024-01-01T00:00:00'')])] \<rparr>) =
     map (\<lambda>(model_id, ms). (model_id, strip_time ms)) (results 
        \<lparr> timestamp = ''2024-06-30T12:00:00'', results =
        [(''A'', [(''rmse'', JFloat (Fin (3 / 100))), (''evaluated_at'', JStr ''2024-06-30T12:00:00'')])] \<rparr>) \<and>
   (\<exists>alerts1 alerts2 summary blocks exposition.
      check_performance (checker_init (Fin (8 / 10)) None) 
        \<lparr> timestamp = ''2024-01-01T00:00:00'', results =
        [(''A'', [(''rmse'', JFloat (Fin (3 / 100))), (''evaluated_at'', JStr ''2024-01-01T00:00:00'')])] \<rparr> = Inr (alerts1, summary) \<and>
      check_performance (checker_init NaN (Some ''https://hooks.example/T0'')) 
        \<lparr> timestamp = ''2024-06-30T12:00:00'', results =
        [(''A'', [(''rmse'', JFloat (Fin (3 / 100))), (''evaluated_at'', JStr ''2024-06-30T12:00:00'')])] \<rparr> = Inr (alerts2, summary) \<and>
      map alert_evaluation_time alerts1 = [Some (JStr ''2024-01-01T00:00:00'')] \<and>
      map alert_evaluation_time alerts2 = [Some (JStr ''2024-06-30T12:00:00'')] \<and>
      format_alert_message (checker_init (Fin (8 / 10)) None) 
        \<lparr> fmt_pct2 = (\<lambda>x. if x = 0 then ''0.00%'' else if x = 2 / 100 then ''2.00%'' else ''3.00%''),
        fmt_f4 = (\<lambda>x. ''0.0300''), fmt_f2 = (\<lambda>x. ''0.00''),
        fmt_str = (\<lambda>x. if x = 0 then ''0.0'' else ''0.03'') \<rparr> alerts1 summary = Inr blocks \<and>
      format_alert_message (checker_init NaN (Some ''https://hooks.example/T0'')) 
        \<lparr> fmt_pct2 = (\<lambda>x. if x = 0 then ''0.00%'' else if x = 2 / 100 then ''2.00%'' else ''3.00%''),
        fmt_f4 = (\<lambda>x. ''0.0300''), fmt_f2 = (\<lambda>x. ''0.00''),
        fmt_str = (\<lambda>x. if x = 0 then ''0.0'' else ''0.03'') \<rparr> alerts2 summary = Inr blocks \<and>
      length blocks = 4 \<and>
      checker_export_metrics (checker_init (Fin (8 / 10)) None) 
        \<lparr> fmt_pct2 = (\<lambda>x. if x = 0 then ''0.00%'' else if x = 2 / 100 then ''2.00%'' else ''3.00%''),
        fmt_f4 = (\<lambda>x. ''0.0300''), fmt_f2 = (\<lambda>x. ''0.00''),
        fmt_str = (\<lambda>x. if x = 0 then ''0.0'' else ''0.03'') \<rparr> summary = Inr exposition \<and>
      checker_export_metrics (checker_init NaN (Some ''https://hooks.example/T0'')) 
        \<lparr> fmt_pct2 = (\<lambda>x. if x = 0 then ''0.00%'' else if x = 2 / 100 then ''2.00%'' else ''3.00%''),
        fmt_f4 = (\<lambda>x. ''0.0300''), fmt_f2 = (\<lambda>x. ''0.00''),
        fmt_str = (\<lambda>x. if x = 0 then ''0.0'' else ''0.03'') \<rparr> summary = Inr exposition)"
proof -
  let ?self1 = "checker_init (Fin (8 / 10)) None"
  let ?self2 = "checker_init NaN (Some ''https://hooks.example/T0'')"
  let ?res1 = "\<lparr> timestamp = ''2024-01-01T00:00:00'', results =
      [(''A'', [(''rmse'', JFloat (Fin (3 / 100))), (''evaluated_at'', JStr ''2024-01-01T00:00:00'')])] \<rparr>"
  let ?res2 = "\<lparr> timestamp = ''2024-06-30T12:00:00'', results =
      [(''A'', [(''rmse'', JFloat (Fin (3 / 100))), (''evaluated_at'', JStr ''2024-06-30T12:00:00'')])] \<rparr>"
  let ?fm = "\<lparr> fmt_pct2 = (\<lambda>x. if x = 0 then ''0.00%'' else if x = 2 / 100 then ''2.00%'' else ''3.00%''),
      fmt_f4 = (\<lambda>x. ''0.0300''), fmt_f2 = (\<lambda>x. ''0.00''),
      fmt_str = (\<lambda>x. if x = 0 then ''0.0'' else ''0.03'') \<rparr>"
  let ?issues = "[\<lparr> issue_metric = ''rmse'', issue_value = JFloat (Fin (3 / 100)),
      issue_threshold = Fin (2 / 100), issue_status = ''high'' \<rparr>]"
  let ?alerts1 = "[\<lparr> alert_model_id = ''A'', alert_alerts = ?issues,
      alert_evaluation_time = Some (JStr ''2024-01-01T00:00:00'') \<rparr>]"
  let ?summary = "[\<lparr> row_model_id = ''A'', row_directional_accuracy = JInt 0,
      row_interval_accuracy = JInt 0, row_rmse = JFloat (Fin (3 / 100)),
      row_profit_correlation = JInt 0, row_alerts = Suc 0 \<rparr>]"
  have h1: "thresholds ?self1 = thresholds ?self2"
    by (simp add: checker_init_def)
  have h2: "''evaluated_at'' \<notin> fst ` set (thresholds ?self1)"
    by (simp add: checker_init_def)
  have h3: "map (\<lambda>(model_id, ms). (model_id, strip_time ms)) (results ?res1) =
      map (\<lambda>(model_id, ms). (model_id, strip_time ms)) (results ?res2)"
    by (simp add: strip_time_def)
  have run1: "check_performance ?self1 ?res1 = Inr (?alerts1, ?summary)"
    by (simp add: check_performance_def checker_init_def dict_get_def num_of_def)
  from checker_outputs_deterministic [OF h1 h2 h3, where fm = "?fm"]
  obtain alerts2 where
    run2: "check_performance ?self2 ?res2 = Inr (alerts2, ?summary)"
    and blocks: "format_alert_message ?self1 ?fm ?alerts1 ?summary =
      format_alert_message ?self2 ?fm alerts2 ?summary"
    and expo: "checker_export_metrics ?self1 ?fm ?summary =
      checker_export_metrics ?self2 ?fm ?summary"
    unfolding run1 by auto
  have times: "map alert_evaluation_time alerts2 = [Some (JStr ''2024-06-30T12:00:00'')]"
    using run2 by (auto simp: check_performance_def checker_init_def dict_get_def num_of_def)
  obtain text1 where text1: "alerts_text ?fm ?alerts1 (''*Performance Alerts:*'' @ nl) = Inr text1"
    by (simp add: format_val_def num_of_def)
  have tops: "top_models ?summary = Inr ?summary"
    by (simp add: top_models_def column_dtype_def data_frame_def nlargest_def sort_desc_def)
  obtain text2 where text2: "models_text ?fm ?summary (''*Top Performing Models:*'' @ nl) = Inr text2"
    by (simp add: format_val_def num_of_def)
  have mean: "column_mean [JInt 0] = Inr (Fin 0)"
    by (simp add: column_mean_def column_dtype_def pd_mean_def the_num_def num_of_def)
  have least: "column_min [JFloat (Fin (3 / 100))] = Inr (JFloat (Fin (3 / 100)))"
    by (simp add: column_min_def column_dtype_def pd_min_def the_num_def num_of_def)
  obtain bs where bs: "format_alert_message ?self1 ?fm ?alerts1 ?summary = Inr bs"
    and len: "length bs = 4"
    by (simp add: format_alert_message_def text1 tops text2 mean least format_val_def num_of_def)
  obtain ex where ex: "checker_export_metrics ?self1 ?fm ?summary = Inr ex"
    by (simp add: checker_export_metrics_def mean least)
  show ?thesis
  proof (intro conjI exI)
    show "thresholds ?self1 = thresholds ?self2" by (rule h1)
    show "''evaluated_at'' \<notin> fst ` set (thresholds ?self1)" by (rule h2)
    show "map (\<lambda>(model_id, ms). (model_id, strip_time ms)) (results ?res1) =
      map (\<lambda>(model_id, ms). (model_id, strip_time ms)) (results ?res2)" by (rule h3)
    show "check_performance ?self1 ?res1 = Inr (?alerts1, ?summary)" by (rule run1)
    show "check_performance ?self2 ?res2 = Inr (alerts2, ?summary)" by (rule run2)
    show "map alert_evaluation_time ?alerts1 = [Some (JStr ''2024-01-01T00:00:00'')]" by simp
    show "map alert_evaluation_time alerts2 = [Some (JStr ''2024-06-30T12:00:00'')]" by (rule times)
    show "format_alert_message ?self1 ?fm ?alerts1 ?summary = Inr bs" by (rule bs)
    show "format_alert_message ?self2 ?fm alerts2 ?summary = Inr bs"
      unfolding blocks [symmetric] by (rule bs)
    show "length bs = 4" by (rule len)
    show "checker_export_metrics ?self1 ?fm ?summary = Inr ex" by (rule ex)
    show "checker_export_metrics ?self2 ?fm ?summary = Inr ex"
      unfolding expo [symmetric] by (rule ex)
  qed
qed

end
